theory Spec2Isabelle
  imports Main "HOL-Library.Sublist"
begin

section \<open>Data model\<close>

text \<open>
  The two platform variants of the daemon package: \<^verbatim>\<open>daemon_freebsd.go\<close> (rc.d scripts,
  type \<^verbatim>\<open>bsdRecord\<close>) and the darwin variant (launchd property lists, type
  \<^verbatim>\<open>darwinRecord\<close>). Both records have the same four fields.
\<close>

record bsdRecord =
  name :: string
  description :: string
  execStartPath :: string
  dependencies :: "string list"

record darwinRecord =
  dname :: string
  ddescription :: string
  dexecStartPath :: string
  ddependencies :: "string list"

text \<open>
  Go's \<^verbatim>\<open>error\<close> is an interface value; \<^verbatim>\<open>nil\<close> is \<open>None\<close>. The sentinel errors
  \<^verbatim>\<open>ErrIncorrectExecStartPath\<close>, \<^verbatim>\<open>ErrAlreadyRunning\<close> and \<^verbatim>\<open>ErrAlreadyStopped\<close> are
  package variables the two files refer to; \<open>ErrNotExist\<close> is the operating system's
  not-found condition (the one \<^verbatim>\<open>os.IsNotExist\<close> recognises), \<open>OsError\<close> any other error
  passed through from a system call, a subprocess or a writer.
\<close>

datatype err =
    ErrNotExist
  | OsError string
  | ErrRootPrivileges
  | ErrIncorrectExecStartPath
  | ErrAlreadyRunning
  | ErrAlreadyStopped

type_synonym error = "err option"

text \<open>A call either returns a value or panics (a Go run-time panic, which nothing in the
  package recovers).\<close>

datatype 'a outcome = Returned 'a | Panicked

section \<open>The environment\<close>

text \<open>
  The file system maps a path to a regular file (content and permission bits) or a
  directory. \<open>fault\<close> injects the failure of a system call: \<open>fault w c = Some e\<close> means that
  call \<open>c\<close> fails with \<open>e\<close> in world \<open>w\<close>. \<open>cmd_result\<close> is what running a subprocess with a
  given argument vector yields (its standard output and its error). \<open>log\<close> records, in
  order, every subprocess started and every file opened for reading.
\<close>

datatype node = File string nat | Dir

datatype syscall =
    SysStat string
  | SysOpen string
  | SysCreate string
  | SysRemove string
  | SysChmod string

datatype event = Exec "string list" | Open string

record world =
  privileged :: bool
  fs :: "string \<Rightarrow> node option"
  fault :: "syscall \<Rightarrow> err option"
  write_fault :: "(nat \<times> err) option"
  parse_fault :: "err option"
  cmd_result :: "string list \<Rightarrow> string \<times> error"
  exe_path :: "string \<Rightarrow> string \<times> error"
  re_match :: "string \<Rightarrow> string \<Rightarrow> bool option"
  re_find :: "string \<Rightarrow> string \<Rightarrow> string option"
  log :: "event list"

text \<open>\<^verbatim>\<open>os.FileInfo\<close>, of which the code reads \<^verbatim>\<open>IsDir()\<close> only.\<close>

record fileInfo =
  isDir :: bool

text \<open>
  \<^verbatim>\<open>os.Stat\<close>: returns \<^verbatim>\<open>(info, nil)\<close> or \<^verbatim>\<open>(nil, err)\<close>; a missing path is
  \<open>ErrNotExist\<close>.
\<close>

definition os_Stat :: "string \<Rightarrow> world \<Rightarrow> fileInfo option \<times> error" where
  "os_Stat p w =
     (case fault w (SysStat p) of
        Some e \<Rightarrow> (None, Some e)
      | None \<Rightarrow>
          (case fs w p of
             None \<Rightarrow> (None, Some ErrNotExist)
           | Some Dir \<Rightarrow> (Some \<lparr>isDir = True\<rparr>, None)
           | Some (File c m) \<Rightarrow> (Some \<lparr>isDir = False\<rparr>, None)))"

text \<open>\<^verbatim>\<open>os.IsNotExist(err)\<close>; false on \<^verbatim>\<open>nil\<close>.\<close>

definition os_IsNotExist :: "error \<Rightarrow> bool" where
  "os_IsNotExist e = (e = Some ErrNotExist)"

text \<open>
  \<^verbatim>\<open>os.Open\<close> followed by \<^verbatim>\<open>ioutil.ReadAll\<close> with its error dropped, as \<^verbatim>\<open>isEnabled\<close>
  does: the bytes read, or the error of the open. A directory opens, and reading it
  yields no bytes. The open is logged.
\<close>

definition os_Open_ReadAll :: "string \<Rightarrow> world \<Rightarrow> (err + string) \<times> world" where
  "os_Open_ReadAll p w =
     (let w1 = w\<lparr>log := log w @ [Open p]\<rparr> in
      case fault w (SysOpen p) of
        Some e \<Rightarrow> (Inl e, w1)
      | None \<Rightarrow>
          (case fs w p of
             None \<Rightarrow> (Inl ErrNotExist, w1)
           | Some Dir \<Rightarrow> (Inr [], w1)
           | Some (File c m) \<Rightarrow> (Inr c, w1)))"

text \<open>
  \<^verbatim>\<open>os.Create\<close>: creates the file empty with mode 0666 (438), or truncates an existing
  regular file and keeps its mode; a directory cannot be created over.
\<close>

definition os_Create :: "string \<Rightarrow> world \<Rightarrow> error \<times> world" where
  "os_Create p w =
     (case fault w (SysCreate p) of
        Some e \<Rightarrow> (Some e, w)
      | None \<Rightarrow>
          (case fs w p of
             None \<Rightarrow> (None, w\<lparr>fs := (fs w)(p \<mapsto> File [] 438)\<rparr>)
           | Some Dir \<Rightarrow> (Some (OsError ''is a directory''), w)
           | Some (File c m) \<Rightarrow> (None, w\<lparr>fs := (fs w)(p \<mapsto> File [] m)\<rparr>)))"

text \<open>\<^verbatim>\<open>os.Remove\<close>.\<close>

definition os_Remove :: "string \<Rightarrow> world \<Rightarrow> error \<times> world" where
  "os_Remove p w =
     (case fault w (SysRemove p) of
        Some e \<Rightarrow> (Some e, w)
      | None \<Rightarrow>
          (case fs w p of
             None \<Rightarrow> (Some ErrNotExist, w)
           | Some n \<Rightarrow> (None, w\<lparr>fs := (fs w)(p := None)\<rparr>)))"

text \<open>\<^verbatim>\<open>os.Chmod\<close>.\<close>

definition os_Chmod :: "string \<Rightarrow> nat \<Rightarrow> world \<Rightarrow> error \<times> world" where
  "os_Chmod p m w =
     (case fault w (SysChmod p) of
        Some e \<Rightarrow> (Some e, w)
      | None \<Rightarrow>
          (case fs w p of
             None \<Rightarrow> (Some ErrNotExist, w)
           | Some Dir \<Rightarrow> (None, w)
           | Some (File c m0) \<Rightarrow> (None, w\<lparr>fs := (fs w)(p \<mapsto> File c m)\<rparr>)))"

text \<open>
  Writing \<open>txt\<close> to the file just created at \<open>p\<close>, as \<^verbatim>\<open>templ.Execute(file, ...)\<close> does:
  when the writer fails after \<open>k\<close> bytes, the first \<open>k\<close> bytes stay in the file.
\<close>

definition file_Write :: "string \<Rightarrow> string \<Rightarrow> world \<Rightarrow> error \<times> world" where
  "file_Write p txt w =
     (let m = (case fs w p of Some (File c m0) \<Rightarrow> m0 | _ \<Rightarrow> 438) in
      case write_fault w of
        Some (k, e) \<Rightarrow> (Some e, w\<lparr>fs := (fs w)(p \<mapsto> File (take k txt) m)\<rparr>)
      | None \<Rightarrow> (None, w\<lparr>fs := (fs w)(p \<mapsto> File txt m)\<rparr>))"

text \<open>
  \<^verbatim>\<open>exec.Command(argv...).Output()\<close> and \<^verbatim>\<open>.Run()\<close>: the subprocess is logged, its
  result comes from the environment.
\<close>

definition exec_Output :: "string list \<Rightarrow> world \<Rightarrow> (string \<times> error) \<times> world" where
  "exec_Output argv w = (cmd_result w argv, w\<lparr>log := log w @ [Exec argv]\<rparr>)"

definition exec_Run :: "string list \<Rightarrow> world \<Rightarrow> error \<times> world" where
  "exec_Run argv w = (snd (cmd_result w argv), w\<lparr>log := log w @ [Exec argv]\<rparr>)"

text \<open>
  Modelled from the spec: \<^verbatim>\<open>checkPrivileges\<close>, \<^verbatim>\<open>failed\<close> and \<^verbatim>\<open>success\<close> are declared in
  a file of the package that is not among the sources. The spec's Privilege Guard is a
  single predicate that fails with a distinguished error; its result contract gives the
  two suffixes as "failed" and "completed successfully".
\<close>

definition checkPrivileges :: "world \<Rightarrow> bool \<times> error" where
  "checkPrivileges w = (if privileged w then (True, None) else (False, Some ErrRootPrivileges))"

definition failed :: string where
  "failed = ''failed''"

definition success :: string where
  "success = ''completed successfully''"

text \<open>
  Modelled from the spec: \<^verbatim>\<open>executablePath\<close> (the Executable Path Resolver) is declared
  outside the sources; its result for a name is taken from the environment.
\<close>

definition executablePath :: "string \<Rightarrow> world \<Rightarrow> string \<times> error" where
  "executablePath n w = exe_path w n"

section \<open>Descriptor path and IsInstalled\<close>

definition bsd_servicePath :: "bsdRecord \<Rightarrow> string" where
  "bsd_servicePath bsd = ''/usr/local/etc/rc.d/'' @ name bsd"

definition darwin_servicePath :: "darwinRecord \<Rightarrow> string" where
  "darwin_servicePath darwin = ''/Library/LaunchDaemons/'' @ dname darwin @ ''.plist''"

definition bsd_IsInstalled :: "bsdRecord \<Rightarrow> world \<Rightarrow> bool \<times> error" where
  "bsd_IsInstalled bsd w =
     (case os_Stat (bsd_servicePath bsd) w of
        (_, None) \<Rightarrow> (True, None)
      | (_, Some e) \<Rightarrow> (False, Some e))"

definition darwin_IsInstalled :: "darwinRecord \<Rightarrow> world \<Rightarrow> bool \<times> error" where
  "darwin_IsInstalled darwin w =
     (case os_Stat (darwin_servicePath darwin) w of
        (_, None) \<Rightarrow> (True, None)
      | (_, Some e) \<Rightarrow> (False, Some e))"

section \<open>Regular expressions the code uses\<close>

text \<open>
  The code builds two patterns from the record's name without quoting it, so a name is
  read as a regular expression. A name of printable ASCII characters none of which is a
  metacharacter of Go's \<^verbatim>\<open>regexp\<close> syntax (the set \<^verbatim>\<open>regexp.QuoteMeta\<close> escapes) is a
  literal, and matching it is a substring search. For any other name the result of the
  \<^verbatim>\<open>regexp\<close> library is taken from the environment (\<open>re_match\<close>, \<open>re_find\<close>), \<open>None\<close>
  standing for a pattern that does not compile.
\<close>

definition regexp_meta :: string where
  "regexp_meta = CHR 0x5C # ''.+*?()|[]{}^$''"

definition plain_name :: "string \<Rightarrow> bool" where
  "plain_name n =
     list_all (\<lambda>c. c \<notin> set regexp_meta \<and> 32 \<le> (of_char c :: nat) \<and> (of_char c :: nat) < 127) n"

text \<open>The lines of a text: the maximal runs without a newline (which \<^verbatim>\<open>.\<close> does not match).\<close>

fun lines_of :: "string \<Rightarrow> string list" where
  "lines_of [] = [] # []"
| "lines_of (c # cs) =
     (if c = CHR 0x0A then [] # lines_of cs
      else (case lines_of cs of [] \<Rightarrow> [c] # [] | l # ls \<Rightarrow> (c # l) # ls))"

text \<open>
  \<^verbatim>\<open>regexp.Compile(`.*` + name + `_enable="YES".*`)\<close> and \<^verbatim>\<open>string(r.Find(rcData))\<close>. For a
  literal name the leftmost match starts at the beginning of the first line that
  contains \<^verbatim>\<open>name_enable="YES"\<close> and, both \<^verbatim>\<open>.*\<close> being greedy, is that whole line; without
  such a line \<^verbatim>\<open>Find\<close> returns nil, the empty string. \<open>None\<close>: the pattern did not compile
  and \<^verbatim>\<open>r\<close> is nil.
\<close>

definition enable_text :: "string \<Rightarrow> string" where
  \<open>enable_text n = n @ ''_enable="YES"''\<close>

definition regexp_Find_enable :: "string \<Rightarrow> string \<Rightarrow> world \<Rightarrow> string option" where
  "regexp_Find_enable n rcData w =
     (if plain_name n then
        (case find (sublist (enable_text n)) (lines_of rcData) of
           None \<Rightarrow> Some []
         | Some l \<Rightarrow> Some l)
      else re_find w (''.*'' @ enable_text n @ ''.*'') rcData)"

text \<open>\<^verbatim>\<open>regexp.MatchString(name, output)\<close>: \<^verbatim>\<open>(matched, err)\<close>.\<close>

definition regexp_MatchString :: "string \<Rightarrow> string \<Rightarrow> world \<Rightarrow> bool \<times> error" where
  "regexp_MatchString n out w =
     (if plain_name n then (sublist n out, None)
      else (case re_match w n out of
              None \<Rightarrow> (False, Some (OsError ''error parsing regexp''))
            | Some b \<Rightarrow> (b, None)))"

text \<open>
  \<^verbatim>\<open>regexp.MustCompile(pre + "([0-9]+)" + suf).FindStringSubmatch(output)\<close> for the two
  fixed patterns of \<^verbatim>\<open>checkRunning\<close>: \<^verbatim>\<open>pid  ([0-9]+)\<close> (no suffix) and
  \<^verbatim>\<open>PID" = ([0-9]+);\<close>. The result is the capture group of the leftmost match, the digits
  taken greedily; \<open>None\<close> when nothing matches (\<^verbatim>\<open>len(data) > 1\<close> is false).
\<close>

definition is_digit :: "char \<Rightarrow> bool" where
  "is_digit c = (c \<in> set ''0123456789'')"

definition match_here :: "string \<Rightarrow> string \<Rightarrow> string \<Rightarrow> string option" where
  "match_here pre suf s =
     (if prefix pre s then
        (let rest = drop (length pre) s; ds = takeWhile is_digit rest in
         if ds \<noteq> [] \<and> prefix suf (dropWhile is_digit rest) then Some ds else None)
      else None)"

fun find_digits :: "string \<Rightarrow> string \<Rightarrow> string \<Rightarrow> string option" where
  "find_digits pre suf [] = match_here pre suf []"
| "find_digits pre suf (c # cs) =
     (case match_here pre suf (c # cs) of
        Some ds \<Rightarrow> Some ds
      | None \<Rightarrow> find_digits pre suf cs)"

definition bsd_pid_prefix :: string where
  "bsd_pid_prefix = ''pid  ''"

definition darwin_pid_prefix :: string where
  \<open>darwin_pid_prefix = ''PID" = ''\<close>

section \<open>rc.d: enablement and verb selection\<close>

text \<open>The loop of \<^verbatim>\<open>isEnabled\<close> over the matched text, with its two flags; a \<^verbatim>\<open>break\<close>
  returns the flags as they are.\<close>

fun scanLine :: "string \<Rightarrow> bool \<Rightarrow> bool \<Rightarrow> bool \<times> bool" where
  "scanLine [] chrFound sharpFound = (chrFound, sharpFound)"
| "scanLine (c # v) chrFound sharpFound =
     (if c = CHR ''#'' \<and> \<not> chrFound then (chrFound, True)
      else if \<not> sharpFound \<and> c \<noteq> CHR '' '' then (True, sharpFound)
      else scanLine v chrFound sharpFound)"

definition rc_conf :: string where
  "rc_conf = ''/etc/rc.conf''"

text \<open>
  \<^verbatim>\<open>isEnabled\<close>. A name whose pattern does not compile leaves \<^verbatim>\<open>r\<close> nil (the error of
  \<^verbatim>\<open>regexp.Compile\<close> is dropped) and \<^verbatim>\<open>r.Find\<close> panics. Messages printed to standard
  output are not part of the model.
\<close>

definition bsd_isEnabled :: "bsdRecord \<Rightarrow> world \<Rightarrow> ((bool \<times> error) \<times> world) outcome" where
  "bsd_isEnabled bsd w =
     (case os_Open_ReadAll rc_conf w of
        (Inl e, w1) \<Rightarrow> Returned ((False, Some e), w1)
      | (Inr rcData, w1) \<Rightarrow>
          (case regexp_Find_enable (name bsd) rcData w1 of
             None \<Rightarrow> Panicked
           | Some v \<Rightarrow> Returned ((fst (scanLine v False False), None), w1)))"

definition bsd_getCmd :: "bsdRecord \<Rightarrow> string \<Rightarrow> world \<Rightarrow> (string \<times> world) outcome" where
  "bsd_getCmd bsd cmd w =
     (case bsd_isEnabled bsd w of
        Panicked \<Rightarrow> Panicked
      | Returned ((ok, err), w1) \<Rightarrow>
          Returned (if \<not> ok \<or> err \<noteq> None then ''one'' @ cmd else cmd, w1))"

section \<open>Status probe\<close>

definition running_msg :: "string option \<Rightarrow> string" where
  "running_msg data =
     (case data of
        Some ds \<Rightarrow> ''Service (pid  '' @ ds @ '') is running...''
      | None \<Rightarrow> ''Service is running...'')"

definition probe :: "string \<Rightarrow> string \<Rightarrow> string \<Rightarrow> string \<times> error \<Rightarrow> world \<Rightarrow> string \<times> bool" where
  "probe n pre suf res w =
     (case res of
        (output, None) \<Rightarrow>
          (case regexp_MatchString n output w of
             (True, None) \<Rightarrow> (running_msg (find_digits pre suf output), True)
           | _ \<Rightarrow> (''Service is stopped'', False))
      | (output, Some e) \<Rightarrow> (''Service is stopped'', False))"

definition bsd_checkRunning :: "bsdRecord \<Rightarrow> world \<Rightarrow> ((string \<times> bool) \<times> world) outcome" where
  "bsd_checkRunning bsd w =
     (case bsd_getCmd bsd ''status'' w of
        Panicked \<Rightarrow> Panicked
      | Returned (verb, w1) \<Rightarrow>
          (case exec_Output [''service'', name bsd, verb] w1 of
             (res, w2) \<Rightarrow> Returned (probe (name bsd) bsd_pid_prefix [] res w2, w2)))"

definition darwin_checkRunning :: "darwinRecord \<Rightarrow> world \<Rightarrow> (string \<times> bool) \<times> world" where
  "darwin_checkRunning darwin w =
     (case exec_Output [''launchctl'', ''list'', dname darwin] w of
        (res, w1) \<Rightarrow> (probe (dname darwin) darwin_pid_prefix '';'' res w1, w1))"

section \<open>Descriptor templates\<close>

text \<open>\<^verbatim>\<open>strings.Join\<close>.\<close>

fun strings_Join :: "string list \<Rightarrow> string \<Rightarrow> string" where
  "strings_Join [] sep = []"
| "strings_Join [a] sep = a"
| "strings_Join (a # b # bs) sep = a @ sep @ strings_Join (b # bs) sep"

text \<open>
  The template \<^verbatim>\<open>bsdConfig\<close> executed on the structure
  \<^verbatim>\<open>{Name, Description, Path, Args}\<close> that \<^verbatim>\<open>Install\<close> passes. The package is
  \<^verbatim>\<open>text/template\<close>: a field is inserted as it is, nothing is escaped. The template has
  no action for \<^verbatim>\<open>.Description\<close>.
\<close>

definition bsdConfig :: "string \<Rightarrow> string \<Rightarrow> string \<Rightarrow> string \<Rightarrow> string" where
  \<open>bsdConfig Name Description Path Args =
     ''#!/bin/sh\<newline>#\<newline># PROVIDE: '' @ Name @
     ''\<newline># REQUIRE: networking syslog\<newline># KEYWORD:\<newline>\<newline># Add the following lines to /etc/rc.conf to enable the '' @ Name @
     '':\<newline>#\<newline># '' @ Name @
     ''_enable="YES"\<newline>#\<newline>\<newline>\<newline>. /etc/rc.subr\<newline>\<newline>name="'' @ Name @
     ''"\<newline>rcvar="'' @ Name @
     ''_enable"\<newline>command="'' @ Path @
     ''"\<newline>pidfile="/var/run/$name.pid"\<newline>\<newline>start_cmd="/usr/sbin/daemon -p $pidfile -f $command '' @ Args @
     ''"\<newline>load_rc_config $name\<newline>run_rc_command "$1"\<newline>''\<close>

text \<open>
  The template \<^verbatim>\<open>propertyList\<close> executed on \<^verbatim>\<open>{Name, Path, Args}\<close>; the body of
  \<^verbatim>\<open>{{range .Args}}\<close> is written once per argument, in order.
\<close>

definition tab :: string where
  "tab = [CHR 0x09]"

definition plist_arg :: "string \<Rightarrow> string" where
  "plist_arg a = ''<string>'' @ a @ ''</string>\<newline>'' @ tab @ tab"

definition propertyList :: "string \<Rightarrow> string \<Rightarrow> string list \<Rightarrow> string" where
  \<open>propertyList Name Path Args =
     ''<?xml version="1.0" encoding="UTF-8"?>\<newline>'' @
     ''<!DOCTYPE plist PUBLIC "-//Apple//DTD PLIST 1.0//EN" "http://www.apple.com/DTDs/PropertyList-1.0.dtd">\<newline>'' @
     ''<plist version="1.0">\<newline><dict>\<newline>'' @
     tab @ ''<key>KeepAlive</key>\<newline>'' @
     tab @ ''<true/>\<newline>'' @
     tab @ ''<key>Label</key>\<newline>'' @
     tab @ ''<string>'' @ Name @ ''</string>\<newline>'' @
     tab @ ''<key>ProgramArguments</key>\<newline>'' @
     tab @ ''<array>\<newline>'' @
     tab @ ''    <string>'' @ Path @ ''</string>\<newline>'' @
     tab @ tab @ concat (map plist_arg Args) @ ''\<newline>'' @
     tab @ ''</array>\<newline>'' @
     tab @ ''<key>RunAtLoad</key>\<newline>'' @
     tab @ ''<true/>\<newline>'' @
     ''    <key>WorkingDirectory</key>\<newline>'' @
     ''    <string>/usr/local/var</string>\<newline>'' @
     ''    <key>StandardErrorPath</key>\<newline>'' @
     ''    <string>/usr/local/var/log/'' @ Name @ ''.err</string>\<newline>'' @
     ''    <key>StandardOutPath</key>\<newline>'' @
     ''    <string>/usr/local/var/log/'' @ Name @ ''.log</string>\<newline>'' @
     ''</dict>\<newline></plist>\<newline>''\<close>

text \<open>
  \<^verbatim>\<open>template.New(...).Parse(...)\<close> of a constant template; its error, if any, is the
  environment's.
\<close>

definition template_Parse :: "world \<Rightarrow> error" where
  "template_Parse w = parse_fault w"

section \<open>Install\<close>

text \<open>
  \<^verbatim>\<open>Install\<close> assigns \<^verbatim>\<open>execStartPath\<close>, so the record is returned with the result. When
  \<^verbatim>\<open>os.Stat\<close> of the execution path fails with an error that is not the not-found
  condition, \<^verbatim>\<open>stat\<close> is nil and \<^verbatim>\<open>stat.IsDir()\<close> panics.
\<close>

text \<open>
  The step \<^verbatim>\<open>if execStartPath == "" { execStartPath, err = executablePath(name) }\<close> of
  \<^verbatim>\<open>Install\<close>: the record after it (the path is assigned whatever the error) and the
  error.
\<close>

definition bsd_resolvePath :: "bsdRecord \<Rightarrow> world \<Rightarrow> bsdRecord \<times> error" where
  "bsd_resolvePath bsd w =
     (if execStartPath bsd = [] then
        (case executablePath (name bsd) w of
           (p, err) \<Rightarrow> (bsd\<lparr>execStartPath := p\<rparr>, err))
      else (bsd, None))"

definition darwin_resolvePath :: "darwinRecord \<Rightarrow> world \<Rightarrow> darwinRecord \<times> error" where
  "darwin_resolvePath darwin w =
     (if dexecStartPath darwin = [] then
        (case executablePath (dname darwin) w of
           (p, err) \<Rightarrow> (darwin\<lparr>dexecStartPath := p\<rparr>, err))
      else (darwin, None))"

definition bsd_Install ::
  "bsdRecord \<Rightarrow> string list \<Rightarrow> world \<Rightarrow> ((string \<times> error) \<times> bsdRecord \<times> world) outcome" where
  "bsd_Install bsd args w =
     (let installAction = ''Install '' @ description bsd @ '':'' in
      case checkPrivileges w of
        (False, err) \<Rightarrow> Returned ((installAction @ failed, err), bsd, w)
      | (True, _) \<Rightarrow>
     (let srvPath = bsd_servicePath bsd in
      case bsd_IsInstalled bsd w of
        (True, err) \<Rightarrow> Returned ((installAction @ failed, err), bsd, w)
      | (False, _) \<Rightarrow>
     (case bsd_resolvePath bsd w of
        (bsd1, Some e) \<Rightarrow> Returned ((installAction @ failed, Some e), bsd1, w)
      | (bsd1, None) \<Rightarrow>
     (case os_Stat (execStartPath bsd1) w of
        (stat, err) \<Rightarrow>
          if os_IsNotExist err then
            Returned ((installAction @ failed, Some ErrIncorrectExecStartPath), bsd1, w)
          else
            (case stat of
               None \<Rightarrow> Panicked
             | Some info \<Rightarrow>
                 if isDir info then
                   Returned ((installAction @ failed, Some ErrIncorrectExecStartPath), bsd1, w)
                 else
     (case os_Create srvPath w of
        (Some e, w1) \<Rightarrow> Returned ((installAction @ failed, Some e), bsd1, w1)
      | (None, w1) \<Rightarrow>
     (case template_Parse w1 of
        Some e \<Rightarrow> Returned ((installAction @ failed, Some e), bsd1, w1)
      | None \<Rightarrow>
     (case file_Write srvPath
             (bsdConfig (name bsd1) (description bsd1) (execStartPath bsd1)
                (strings_Join args '' '')) w1 of
        (Some e, w2) \<Rightarrow> Returned ((installAction @ failed, Some e), bsd1, w2)
      | (None, w2) \<Rightarrow>
     (case os_Chmod srvPath 493 w2 of
        (Some e, w3) \<Rightarrow> Returned ((installAction @ failed, Some e), bsd1, w3)
      | (None, w3) \<Rightarrow> Returned ((installAction @ success, None), bsd1, w3))))))))))"

definition darwin_Install ::
  "darwinRecord \<Rightarrow> string list \<Rightarrow> world \<Rightarrow> ((string \<times> error) \<times> darwinRecord \<times> world) outcome" where
  "darwin_Install darwin args w =
     (let installAction = ''Install '' @ ddescription darwin @ '':'' in
      case checkPrivileges w of
        (False, err) \<Rightarrow> Returned ((installAction @ failed, err), darwin, w)
      | (True, _) \<Rightarrow>
     (let srvPath = darwin_servicePath darwin in
      case darwin_IsInstalled darwin w of
        (True, err) \<Rightarrow> Returned ((installAction @ failed, err), darwin, w)
      | (False, _) \<Rightarrow>
     (case darwin_resolvePath darwin w of
        (darwin1, Some e) \<Rightarrow> Returned ((installAction @ failed, Some e), darwin1, w)
      | (darwin1, None) \<Rightarrow>
     (case os_Stat (dexecStartPath darwin1) w of
        (stat, err) \<Rightarrow>
          if os_IsNotExist err then
            Returned ((installAction @ failed, Some ErrIncorrectExecStartPath), darwin1, w)
          else
            (case stat of
               None \<Rightarrow> Panicked
             | Some info \<Rightarrow>
                 if isDir info then
                   Returned ((installAction @ failed, Some ErrIncorrectExecStartPath), darwin1, w)
                 else
     (case os_Create srvPath w of
        (Some e, w1) \<Rightarrow> Returned ((installAction @ failed, Some e), darwin1, w1)
      | (None, w1) \<Rightarrow>
     (case template_Parse w1 of
        Some e \<Rightarrow> Returned ((installAction @ failed, Some e), darwin1, w1)
      | None \<Rightarrow>
     (case file_Write srvPath
             (propertyList (dname darwin1) (dexecStartPath darwin1) args) w1 of
        (Some e, w2) \<Rightarrow> Returned ((installAction @ failed, Some e), darwin1, w2)
      | (None, w2) \<Rightarrow> Returned ((installAction @ success, None), darwin1, w2)))))))))"

section \<open>Remove, Start, Stop, Status\<close>

definition bsd_Remove :: "bsdRecord \<Rightarrow> world \<Rightarrow> (string \<times> error) \<times> world" where
  "bsd_Remove bsd w =
     (let removeAction = ''Removing '' @ description bsd @ '':'' in
      case checkPrivileges w of
        (False, err) \<Rightarrow> ((removeAction @ failed, err), w)
      | (True, _) \<Rightarrow>
     (case bsd_IsInstalled bsd w of
        (False, err) \<Rightarrow> ((removeAction @ failed, err), w)
      | (True, _) \<Rightarrow>
     (case os_Remove (bsd_servicePath bsd) w of
        (Some e, w1) \<Rightarrow> ((removeAction @ failed, Some e), w1)
      | (None, w1) \<Rightarrow> ((removeAction @ success, None), w1))))"

definition darwin_Remove :: "darwinRecord \<Rightarrow> world \<Rightarrow> (string \<times> error) \<times> world" where
  "darwin_Remove darwin w =
     (let removeAction = ''Removing '' @ ddescription darwin @ '':'' in
      case checkPrivileges w of
        (False, err) \<Rightarrow> ((removeAction @ failed, err), w)
      | (True, _) \<Rightarrow>
     (case darwin_IsInstalled darwin w of
        (False, err) \<Rightarrow> ((removeAction @ failed, err), w)
      | (True, _) \<Rightarrow>
     (case os_Remove (darwin_servicePath darwin) w of
        (Some e, w1) \<Rightarrow> ((removeAction @ failed, Some e), w1)
      | (None, w1) \<Rightarrow> ((removeAction @ success, None), w1))))"

text \<open>
  The arguments of \<^verbatim>\<open>exec.Command("service", bsd.name, bsd.getCmd("start"))\<close> are
  evaluated before the command runs, so \<^verbatim>\<open>getCmd\<close> comes first. On rc.d a call can
  panic, through \<^verbatim>\<open>isEnabled\<close>.
\<close>

definition bsd_Start :: "bsdRecord \<Rightarrow> world \<Rightarrow> ((string \<times> error) \<times> world) outcome" where
  "bsd_Start bsd w =
     (let startAction = ''Starting '' @ description bsd @ '':'' in
      case checkPrivileges w of
        (False, err) \<Rightarrow> Returned ((startAction @ failed, err), w)
      | (True, _) \<Rightarrow>
     (case bsd_IsInstalled bsd w of
        (False, err) \<Rightarrow> Returned ((startAction @ failed, err), w)
      | (True, _) \<Rightarrow>
     (case bsd_checkRunning bsd w of
        Panicked \<Rightarrow> Panicked
      | Returned ((_, True), w1) \<Rightarrow> Returned ((startAction @ failed, Some ErrAlreadyRunning), w1)
      | Returned ((_, False), w1) \<Rightarrow>
     (case bsd_getCmd bsd ''start'' w1 of
        Panicked \<Rightarrow> Panicked
      | Returned (verb, w2) \<Rightarrow>
     (case exec_Run [''service'', name bsd, verb] w2 of
        (Some e, w3) \<Rightarrow> Returned ((startAction @ failed, Some e), w3)
      | (None, w3) \<Rightarrow> Returned ((startAction @ success, None), w3))))))"

definition bsd_Stop :: "bsdRecord \<Rightarrow> world \<Rightarrow> ((string \<times> error) \<times> world) outcome" where
  "bsd_Stop bsd w =
     (let stopAction = ''Stopping '' @ description bsd @ '':'' in
      case checkPrivileges w of
        (False, err) \<Rightarrow> Returned ((stopAction @ failed, err), w)
      | (True, _) \<Rightarrow>
     (case bsd_IsInstalled bsd w of
        (False, err) \<Rightarrow> Returned ((stopAction @ failed, err), w)
      | (True, _) \<Rightarrow>
     (case bsd_checkRunning bsd w of
        Panicked \<Rightarrow> Panicked
      | Returned ((_, False), w1) \<Rightarrow> Returned ((stopAction @ failed, Some ErrAlreadyStopped), w1)
      | Returned ((_, True), w1) \<Rightarrow>
     (case bsd_getCmd bsd ''stop'' w1 of
        Panicked \<Rightarrow> Panicked
      | Returned (verb, w2) \<Rightarrow>
     (case exec_Run [''service'', name bsd, verb] w2 of
        (Some e, w3) \<Rightarrow> Returned ((stopAction @ failed, Some e), w3)
      | (None, w3) \<Rightarrow> Returned ((stopAction @ success, None), w3))))))"

definition bsd_Status :: "bsdRecord \<Rightarrow> world \<Rightarrow> ((string \<times> error) \<times> world) outcome" where
  "bsd_Status bsd w =
     (case checkPrivileges w of
        (False, err) \<Rightarrow> Returned (([], err), w)
      | (True, _) \<Rightarrow>
     (case bsd_IsInstalled bsd w of
        (False, err) \<Rightarrow> Returned ((''Status could not defined'', err), w)
      | (True, _) \<Rightarrow>
     (case bsd_checkRunning bsd w of
        Panicked \<Rightarrow> Panicked
      | Returned ((statusAction, _), w1) \<Rightarrow> Returned ((statusAction, None), w1))))"

definition darwin_Start :: "darwinRecord \<Rightarrow> world \<Rightarrow> (string \<times> error) \<times> world" where
  "darwin_Start darwin w =
     (let startAction = ''Starting '' @ ddescription darwin @ '':'' in
      case checkPrivileges w of
        (False, err) \<Rightarrow> ((startAction @ failed, err), w)
      | (True, _) \<Rightarrow>
     (case darwin_IsInstalled darwin w of
        (False, err) \<Rightarrow> ((startAction @ failed, err), w)
      | (True, _) \<Rightarrow>
     (case darwin_checkRunning darwin w of
        ((_, True), w1) \<Rightarrow> ((startAction @ failed, Some ErrAlreadyRunning), w1)
      | ((_, False), w1) \<Rightarrow>
     (case exec_Run [''launchctl'', ''load'', darwin_servicePath darwin] w1 of
        (Some e, w2) \<Rightarrow> ((startAction @ failed, Some e), w2)
      | (None, w2) \<Rightarrow> ((startAction @ success, None), w2)))))"

definition darwin_Stop :: "darwinRecord \<Rightarrow> world \<Rightarrow> (string \<times> error) \<times> world" where
  "darwin_Stop darwin w =
     (let stopAction = ''Stopping '' @ ddescription darwin @ '':'' in
      case checkPrivileges w of
        (False, err) \<Rightarrow> ((stopAction @ failed, err), w)
      | (True, _) \<Rightarrow>
     (case darwin_IsInstalled darwin w of
        (False, err) \<Rightarrow> ((stopAction @ failed, err), w)
      | (True, _) \<Rightarrow>
     (case darwin_checkRunning darwin w of
        ((_, False), w1) \<Rightarrow> ((stopAction @ failed, Some ErrAlreadyStopped), w1)
      | ((_, True), w1) \<Rightarrow>
     (case exec_Run [''launchctl'', ''unload'', darwin_servicePath darwin] w1 of
        (Some e, w2) \<Rightarrow> ((stopAction @ failed, Some e), w2)
      | (None, w2) \<Rightarrow> ((stopAction @ success, None), w2)))))"

definition darwin_Status :: "darwinRecord \<Rightarrow> world \<Rightarrow> (string \<times> error) \<times> world" where
  "darwin_Status darwin w =
     (case checkPrivileges w of
        (False, err) \<Rightarrow> (([], err), w)
      | (True, _) \<Rightarrow>
     (case darwin_IsInstalled darwin w of
        (False, err) \<Rightarrow> ((''Status could not defined'', err), w)
      | (True, _) \<Rightarrow>
     (case darwin_checkRunning darwin w of
        ((statusAction, _), w1) \<Rightarrow> ((statusAction, None), w1))))"

section \<open>Notions the properties are stated with\<close>

text \<open>The value a call returned, and the world it left; \<open>None\<close> when it panicked.\<close>

definition result :: "('a \<times> 'b) outcome \<Rightarrow> 'a option" where
  "result r = (case r of Returned (x, w) \<Rightarrow> Some x | Panicked \<Rightarrow> None)"

definition world_after :: "('a \<times> 'b) outcome \<Rightarrow> 'b option" where
  "world_after r = (case r of Returned (x, w) \<Rightarrow> Some w | Panicked \<Rightarrow> None)"

text \<open>
  The result contract of the spec, in its words: the message is the verb phrase, the
  description and \<^verbatim>\<open>:\<close> followed by one of the two suffixes, and the error is non-nil
  exactly when the message carries the failure suffix.
\<close>

definition result_contract :: "string \<Rightarrow> string \<Rightarrow> string \<times> error \<Rightarrow> bool" where
  "result_contract verb d r =
     (case r of (msg, e) \<Rightarrow>
        (msg = verb @ d @ '':'' @ failed \<or> msg = verb @ d @ '':'' @ success) \<and>
        ((e \<noteq> None) = suffix failed msg))"

text \<open>
  The service is registered for boot-time autostart, as the code sees it: \<^verbatim>\<open>isEnabled\<close>
  returned true with a nil error. \<open>bsd_verb\<close> is the verb \<^verbatim>\<open>getCmd\<close> then selects, and
  \<open>bsd_probe_trace\<close> what the status probe of rc.d adds to the log.
\<close>

definition bsd_enabled :: "bsdRecord \<Rightarrow> world \<Rightarrow> bool" where
  "bsd_enabled bsd w =
     (case result (bsd_isEnabled bsd w) of
        Some (ok, err) \<Rightarrow> ok \<and> err = None
      | None \<Rightarrow> False)"

definition bsd_verb :: "bsdRecord \<Rightarrow> string \<Rightarrow> world \<Rightarrow> string" where
  "bsd_verb bsd cmd w = (if bsd_enabled bsd w then cmd else ''one'' @ cmd)"

definition bsd_probe_trace :: "bsdRecord \<Rightarrow> world \<Rightarrow> event list" where
  "bsd_probe_trace bsd w =
     [Open rc_conf, Exec [''service'', name bsd, bsd_verb bsd ''status'' w]]"



text \<open>
  The precondition checks of \<^verbatim>\<open>Install\<close> have all passed, leaving the record \<open>bsd1\<close>:
  privileges, no descriptor yet, the execution path resolved without error and naming
  an existing file that is not a directory.
\<close>

definition bsd_checks_pass :: "bsdRecord \<Rightarrow> world \<Rightarrow> bsdRecord \<Rightarrow> bool" where
  "bsd_checks_pass bsd w bsd1 =
     (privileged w \<and> \<not> fst (bsd_IsInstalled bsd w) \<and> bsd_resolvePath bsd w = (bsd1, None) \<and>
      os_Stat (execStartPath bsd1) w = (Some \<lparr>isDir = False\<rparr>, None))"

definition darwin_checks_pass :: "darwinRecord \<Rightarrow> world \<Rightarrow> darwinRecord \<Rightarrow> bool" where
  "darwin_checks_pass darwin w darwin1 =
     (privileged w \<and> \<not> fst (darwin_IsInstalled darwin w) \<and>
      darwin_resolvePath darwin w = (darwin1, None) \<and>
      os_Stat (dexecStartPath darwin1) w = (Some \<lparr>isDir = False\<rparr>, None))"

text \<open>The text \<^verbatim>\<open>Install\<close> renders for a record and trailing arguments.\<close>

definition bsd_text :: "bsdRecord \<Rightarrow> string list \<Rightarrow> string" where
  "bsd_text bsd args =
     bsdConfig (name bsd) (description bsd) (execStartPath bsd) (strings_Join args '' '')"

definition darwin_text :: "darwinRecord \<Rightarrow> string list \<Rightarrow> string" where
  "darwin_text darwin args = propertyList (dname darwin) (dexecStartPath darwin) args"

section \<open>Example inputs\<close>

text \<open>
  A privileged process on an empty file system where no system call is made to fail,
  and records for a service \<^verbatim>\<open>foo\<close> on each platform. \<open>rc_world\<close> adds a boot
  configuration with the given text.
\<close>

definition ex_world :: world where
  "ex_world =
     \<lparr>privileged = True, fs = Map.empty, fault = (\<lambda>c. None), write_fault = None,
      parse_fault = None, cmd_result = (\<lambda>argv. ([], None)),
      exe_path = (\<lambda>n. (''/usr/local/bin/'' @ n, None)),
      re_match = (\<lambda>p s. None), re_find = (\<lambda>p s. None), log = []\<rparr>"


definition foo_rec :: bsdRecord where
  "foo_rec =
     \<lparr>name = ''foo'', description = ''Foo daemon'',
      execStartPath = ''/usr/local/bin/foo'', dependencies = []\<rparr>"

definition foo_plist :: darwinRecord where
  "foo_plist =
     \<lparr>dname = ''foo'', ddescription = ''Foo daemon'',
      dexecStartPath = ''/usr/local/bin/foo'', ddependencies = []\<rparr>"

text \<open>
  The service \<^verbatim>\<open>foo\<close> installed on both platforms: its descriptors and its binary exist.
  \<open>svc_world rc res\<close> has the boot configuration \<open>rc\<close> and answers every command with
  \<open>res\<close>; \<open>running_out\<close> is the output of a status command for a running service.
\<close>

definition installed_fs :: "string \<Rightarrow> node option" where
  "installed_fs =
     [bsd_servicePath foo_rec \<mapsto> File ''old'' 493,
      darwin_servicePath foo_plist \<mapsto> File ''old'' 420,
      ''/usr/local/bin/foo'' \<mapsto> File [] 493]"

definition svc_world :: "string \<Rightarrow> string \<times> error \<Rightarrow> world" where
  "svc_world rc res =
     ex_world\<lparr>fs := installed_fs(rc_conf \<mapsto> File rc 420), cmd_result := (\<lambda>argv. res)\<rparr>"

definition running_out :: string where
  "running_out = ''foo is running as pid  1234.''"

text \<open>
  The binary exists, no descriptor does, and the disk is full after 23 bytes: the first
  write of the template's execution succeeds and the next one fails.
\<close>

definition full_disk_world :: world where
  "full_disk_world =
     ex_world\<lparr>fs := [''/usr/local/bin/foo'' \<mapsto> File [] 493],
               write_fault := Some (23, OsError ''no space left on device'')\<rparr>"

text \<open>\<^verbatim>\<open>os.Stat\<close> of \<^verbatim>\<open>/etc/passwd/foo\<close> fails because \<^verbatim>\<open>/etc/passwd\<close> is not a directory.\<close>

definition stat_fault_world :: world where
  "stat_fault_world =
     ex_world\<lparr>fault := (\<lambda>c. if c = SysStat ''/etc/passwd/foo''
                              then Some (OsError ''not a directory'') else None)\<rparr>"

text \<open>The record of the spec's rendering example, with a description that is easy to
  look for.\<close>

definition x_rec :: bsdRecord where
  "x_rec =
     \<lparr>name = ''x'', description = ''Zeta daemon'', execStartPath = ''/usr/bin/x'',
      dependencies = []\<rparr>"

definition x_plist :: darwinRecord where
  "x_plist =
     \<lparr>dname = ''x'', ddescription = ''Zeta daemon'', dexecStartPath = ''/usr/bin/x'',
      ddependencies = []\<rparr>"

section \<open>Properties\<close>

subsection \<open>Basic facts\<close>

lemma result_Returned [simp]: "result (Returned (x, w)) = Some x"
  by (simp add: result_def)

lemma result_Panicked [simp]: "result Panicked = None"
  by (simp add: result_def)

lemma os_Stat_shape:
  "(fst (os_Stat p w) = None) = (snd (os_Stat p w) \<noteq> None)"
  by (simp add: os_Stat_def split: option.split node.split)

lemma stat_ex_world: "os_Stat p ex_world = (None, Some ErrNotExist)"
  by (simp add: os_Stat_def ex_world_def)

lemma plain_foo: "plain_name ''foo''"
  by (simp add: plain_name_def regexp_meta_def)

subsection \<open>IsInstalled\<close>

lemma IsInstalled_bsd:
  "(fst (bsd_IsInstalled bsd w) \<longleftrightarrow> snd (bsd_IsInstalled bsd w) = None) \<and>
   (\<not> fst (bsd_IsInstalled bsd w) \<longrightarrow>
      snd (bsd_IsInstalled bsd w) \<noteq> None \<and>
      snd (bsd_IsInstalled bsd w) = snd (os_Stat (bsd_servicePath bsd) w))"
  by (cases "os_Stat (bsd_servicePath bsd) w")
     (auto simp: bsd_IsInstalled_def split: option.splits)

lemma IsInstalled_darwin:
  "(fst (darwin_IsInstalled darwin w) \<longleftrightarrow> snd (darwin_IsInstalled darwin w) = None) \<and>
   (\<not> fst (darwin_IsInstalled darwin w) \<longrightarrow>
      snd (darwin_IsInstalled darwin w) \<noteq> None \<and>
      snd (darwin_IsInstalled darwin w) = snd (os_Stat (darwin_servicePath darwin) w))"
  by (cases "os_Stat (darwin_servicePath darwin) w")
     (auto simp: darwin_IsInstalled_def split: option.splits)

text \<open>
  C10. On either variant \<^verbatim>\<open>IsInstalled\<close> returns true exactly when the error it returns
  is nil; a false verdict comes with the non-nil error of the stat of the descriptor
  path.
\<close>

theorem IsInstalled_true_iff_nil:
  "(fst (bsd_IsInstalled bsd w) \<longleftrightarrow> snd (bsd_IsInstalled bsd w) = None) \<and>
   (\<not> fst (bsd_IsInstalled bsd w) \<longrightarrow>
      snd (bsd_IsInstalled bsd w) \<noteq> None \<and>
      snd (bsd_IsInstalled bsd w) = snd (os_Stat (bsd_servicePath bsd) w)) \<and>
   (fst (darwin_IsInstalled darwin w) \<longleftrightarrow> snd (darwin_IsInstalled darwin w) = None) \<and>
   (\<not> fst (darwin_IsInstalled darwin w) \<longrightarrow>
      snd (darwin_IsInstalled darwin w) \<noteq> None \<and>
      snd (darwin_IsInstalled darwin w) = snd (os_Stat (darwin_servicePath darwin) w))"
  using IsInstalled_bsd [of bsd w] IsInstalled_darwin [of darwin w] by blast

theorem IsInstalled_true_iff_nil_witness:
  "\<not> fst (bsd_IsInstalled foo_rec ex_world) \<and>
   snd (bsd_IsInstalled foo_rec ex_world) = Some ErrNotExist \<and>
   \<not> fst (darwin_IsInstalled foo_plist ex_world) \<and>
   snd (darwin_IsInstalled foo_plist ex_world) = Some ErrNotExist"
  using IsInstalled_true_iff_nil [of foo_rec ex_world foo_plist]
  by (simp add: stat_ex_world bsd_IsInstalled_def darwin_IsInstalled_def)

subsection \<open>The enablement check\<close>

text \<open>The lines of a text, joined again with newlines, are the text; no line holds a
  newline.\<close>

lemma lines_of_nonempty: "lines_of t \<noteq> []"
  by (induction t) (auto split: list.splits)

lemma lines_of_join: "strings_Join (lines_of t) [CHR 0x0A] = t"
proof (induction t)
  case Nil
  then show ?case by simp
next
  case (Cons c t)
  obtain l ls where ls: "lines_of t = l # ls"
    using lines_of_nonempty [of t] by (cases "lines_of t") auto
  show ?case
  proof (cases "c = CHR 0x0A")
    case True
    with Cons ls show ?thesis by simp
  next
    case False
    with Cons ls show ?thesis by (cases ls) auto
  qed
qed

lemma lines_of_no_newline: "l \<in> set (lines_of t) \<Longrightarrow> CHR 0x0A \<notin> set l"
  by (induction t arbitrary: l) (auto split: if_splits list.splits)




lemma isEnabled_readable:
  "plain_name (name bsd) \<Longrightarrow> fst (os_Open_ReadAll rc_conf w) = Inr rcData \<Longrightarrow>
   bsd_isEnabled bsd w =
     Returned ((fst (scanLine (case find (sublist (enable_text (name bsd))) (lines_of rcData) of
                       None \<Rightarrow> [] | Some l \<Rightarrow> l) False False), None),
           snd (os_Open_ReadAll rc_conf w))"
  by (cases "os_Open_ReadAll rc_conf w")
     (simp add: bsd_isEnabled_def regexp_Find_enable_def split: option.split)












subsection \<open>The status probe\<close>






lemma probe_plain:
  "plain_name n \<Longrightarrow>
   probe n pre suf (out, e) w =
     (if e = None \<and> sublist n out then (running_msg (find_digits pre suf out), True)
      else (''Service is stopped'', False))"
  by (cases e) (simp_all add: probe_def regexp_MatchString_def)


lemma open_snd: "snd (os_Open_ReadAll p w) = w\<lparr>log := log w @ [Open p]\<rparr>"
  by (simp add: os_Open_ReadAll_def Let_def split: option.split node.split)

lemma isEnabled_shape:
  "bsd_isEnabled bsd w = Panicked \<or>
   (\<exists>r. bsd_isEnabled bsd w = Returned (r, w\<lparr>log := log w @ [Open rc_conf]\<rparr>))"
proof (cases "os_Open_ReadAll rc_conf w")
  case (Pair a w1)
  with open_snd [of rc_conf w] have w1: "w1 = w\<lparr>log := log w @ [Open rc_conf]\<rparr>" by simp
  show ?thesis
    using Pair w1 by (cases a) (auto simp: bsd_isEnabled_def split: option.split)
qed

lemma isEnabled_plain_returns:
  "plain_name (name bsd) \<Longrightarrow> bsd_isEnabled bsd w \<noteq> Panicked"
  by (cases "os_Open_ReadAll rc_conf w")
     (auto simp: bsd_isEnabled_def regexp_Find_enable_def split: sum.split option.split)

lemma getCmd_shape:
  "bsd_getCmd bsd cmd w = Panicked \<and> bsd_isEnabled bsd w = Panicked \<or>
   bsd_getCmd bsd cmd w = Returned (bsd_verb bsd cmd w, w\<lparr>log := log w @ [Open rc_conf]\<rparr>) \<and>
   bsd_isEnabled bsd w \<noteq> Panicked"
  using isEnabled_shape [of bsd w]
  by (auto simp: bsd_getCmd_def bsd_verb_def bsd_enabled_def)

lemma getCmd_plain:
  "plain_name (name bsd) \<Longrightarrow>
   bsd_getCmd bsd cmd w = Returned (bsd_verb bsd cmd w, w\<lparr>log := log w @ [Open rc_conf]\<rparr>)"
  using getCmd_shape [of bsd cmd w] isEnabled_plain_returns [of bsd w] by auto

lemma bsd_checkRunning_plain:
  assumes "plain_name (name bsd)"
  shows "bsd_checkRunning bsd w =
     Returned (probe (name bsd) bsd_pid_prefix []
                 (cmd_result w [''service'', name bsd, bsd_verb bsd ''status'' w])
                 (w\<lparr>log := log w @ [Open rc_conf, Exec [''service'', name bsd, bsd_verb bsd ''status'' w]]\<rparr>),
               w\<lparr>log := log w @ [Open rc_conf, Exec [''service'', name bsd, bsd_verb bsd ''status'' w]]\<rparr>)"
  by (simp add: bsd_checkRunning_def getCmd_plain [OF assms] exec_Output_def)

lemma darwin_checkRunning_eq:
  "darwin_checkRunning darwin w =
     (probe (dname darwin) darwin_pid_prefix '';''
        (cmd_result w [''launchctl'', ''list'', dname darwin])
        (w\<lparr>log := log w @ [Exec [''launchctl'', ''list'', dname darwin]]\<rparr>),
      w\<lparr>log := log w @ [Exec [''launchctl'', ''list'', dname darwin]]\<rparr>)"
  by (simp add: darwin_checkRunning_def exec_Output_def)


subsection \<open>Start and Stop on rc.d\<close>

lemma isEnabled_log:
  "result (bsd_isEnabled bsd (w\<lparr>log := l\<rparr>)) = result (bsd_isEnabled bsd w)"
  by (simp add: bsd_isEnabled_def os_Open_ReadAll_def regexp_Find_enable_def Let_def
      split: option.split node.split)

lemma bsd_verb_log: "bsd_verb bsd cmd (w\<lparr>log := l\<rparr>) = bsd_verb bsd cmd w"
  by (simp add: bsd_verb_def bsd_enabled_def isEnabled_log)

lemma isEnabled_Panicked_iff: "(bsd_isEnabled bsd w = Panicked) = (result (bsd_isEnabled bsd w) = None)"
  by (cases "bsd_isEnabled bsd w") (auto simp: result_def)

lemma isEnabled_Panicked_log:
  "(bsd_isEnabled bsd (w\<lparr>log := l\<rparr>) = Panicked) = (bsd_isEnabled bsd w = Panicked)"
  by (simp add: isEnabled_Panicked_iff isEnabled_log)

lemma bsd_checkRunning_shape:
  "bsd_checkRunning bsd w = Panicked \<and> bsd_isEnabled bsd w = Panicked \<or>
   (\<exists>r. bsd_checkRunning bsd w = Returned (r, w\<lparr>log := log w @ bsd_probe_trace bsd w\<rparr>)) \<and>
   bsd_isEnabled bsd w \<noteq> Panicked"
  using getCmd_shape [of bsd "''status''" w]
  by (auto simp: bsd_checkRunning_def exec_Output_def bsd_probe_trace_def)

lemma checkPrivileges_cases:
  "checkPrivileges w = (if privileged w then (True, None) else (False, Some ErrRootPrivileges))"
  by (simp add: checkPrivileges_def)

lemma bsd_Start_unprivileged:
  "\<not> privileged w \<Longrightarrow>
   bsd_Start bsd w =
     Returned ((''Starting '' @ description bsd @ '':'' @ failed, Some ErrRootPrivileges), w)"
  by (simp add: bsd_Start_def checkPrivileges_def)

lemma bsd_Start_not_installed:
  "privileged w \<Longrightarrow> \<not> fst (bsd_IsInstalled bsd w) \<Longrightarrow>
   bsd_Start bsd w =
     Returned ((''Starting '' @ description bsd @ '':'' @ failed, snd (bsd_IsInstalled bsd w)), w)"
  by (cases "bsd_IsInstalled bsd w") (simp add: bsd_Start_def checkPrivileges_def)

lemma bsd_Start_panic:
  "privileged w \<Longrightarrow> fst (bsd_IsInstalled bsd w) \<Longrightarrow> bsd_checkRunning bsd w = Panicked \<Longrightarrow>
   bsd_Start bsd w = Panicked"
  by (cases "bsd_IsInstalled bsd w") (simp add: bsd_Start_def checkPrivileges_def)

lemma bsd_Start_running:
  "privileged w \<Longrightarrow> fst (bsd_IsInstalled bsd w) \<Longrightarrow>
   bsd_checkRunning bsd w = Returned ((m, True), w1) \<Longrightarrow>
   bsd_Start bsd w =
     Returned ((''Starting '' @ description bsd @ '':'' @ failed, Some ErrAlreadyRunning), w1)"
  by (cases "bsd_IsInstalled bsd w") (simp add: bsd_Start_def checkPrivileges_def)

lemma bsd_Start_not_running:
  assumes "privileged w" and "fst (bsd_IsInstalled bsd w)"
    and "bsd_checkRunning bsd w = Returned ((m, False), w1)"
    and "bsd_getCmd bsd ''start'' w1 = Returned (verb, w2)"
  shows "bsd_Start bsd w =
     Returned ((''Starting '' @ description bsd @ '':'' @
                  (if snd (cmd_result w2 [''service'', name bsd, verb]) = None then success else failed),
                snd (cmd_result w2 [''service'', name bsd, verb])),
               w2\<lparr>log := log w2 @ [Exec [''service'', name bsd, verb]]\<rparr>)"
  using assms
  by (cases "bsd_IsInstalled bsd w"; cases "snd (cmd_result w2 [''service'', name bsd, verb])")
     (simp_all add: bsd_Start_def checkPrivileges_def exec_Run_def)

lemma bsd_Stop_unprivileged:
  "\<not> privileged w \<Longrightarrow>
   bsd_Stop bsd w =
     Returned ((''Stopping '' @ description bsd @ '':'' @ failed, Some ErrRootPrivileges), w)"
  by (simp add: bsd_Stop_def checkPrivileges_def)

lemma bsd_Stop_not_installed:
  "privileged w \<Longrightarrow> \<not> fst (bsd_IsInstalled bsd w) \<Longrightarrow>
   bsd_Stop bsd w =
     Returned ((''Stopping '' @ description bsd @ '':'' @ failed, snd (bsd_IsInstalled bsd w)), w)"
  by (cases "bsd_IsInstalled bsd w") (simp add: bsd_Stop_def checkPrivileges_def)

lemma bsd_Stop_panic:
  "privileged w \<Longrightarrow> fst (bsd_IsInstalled bsd w) \<Longrightarrow> bsd_checkRunning bsd w = Panicked \<Longrightarrow>
   bsd_Stop bsd w = Panicked"
  by (cases "bsd_IsInstalled bsd w") (simp add: bsd_Stop_def checkPrivileges_def)

lemma bsd_Stop_stopped:
  "privileged w \<Longrightarrow> fst (bsd_IsInstalled bsd w) \<Longrightarrow>
   bsd_checkRunning bsd w = Returned ((m, False), w1) \<Longrightarrow>
   bsd_Stop bsd w =
     Returned ((''Stopping '' @ description bsd @ '':'' @ failed, Some ErrAlreadyStopped), w1)"
  by (cases "bsd_IsInstalled bsd w") (simp add: bsd_Stop_def checkPrivileges_def)

lemma bsd_Stop_running:
  assumes "privileged w" and "fst (bsd_IsInstalled bsd w)"
    and "bsd_checkRunning bsd w = Returned ((m, True), w1)"
    and "bsd_getCmd bsd ''stop'' w1 = Returned (verb, w2)"
  shows "bsd_Stop bsd w =
     Returned ((''Stopping '' @ description bsd @ '':'' @
                  (if snd (cmd_result w2 [''service'', name bsd, verb]) = None then success else failed),
                snd (cmd_result w2 [''service'', name bsd, verb])),
               w2\<lparr>log := log w2 @ [Exec [''service'', name bsd, verb]]\<rparr>)"
  using assms
  by (cases "bsd_IsInstalled bsd w"; cases "snd (cmd_result w2 [''service'', name bsd, verb])")
     (simp_all add: bsd_Stop_def checkPrivileges_def exec_Run_def)

lemma bsd_checkRunning_Returned:
  assumes "bsd_checkRunning bsd w = Returned (r, w1)"
  shows "w1 = w\<lparr>log := log w @ bsd_probe_trace bsd w\<rparr> \<and> bsd_isEnabled bsd w \<noteq> Panicked"
  using assms bsd_checkRunning_shape [of bsd w] by auto

lemma getCmd_after_probe:
  assumes "bsd_isEnabled bsd w \<noteq> Panicked"
  shows "bsd_getCmd bsd cmd (w\<lparr>log := l\<rparr>) =
           Returned (bsd_verb bsd cmd w, w\<lparr>log := l @ [Open rc_conf]\<rparr>)"
  using getCmd_shape [of bsd cmd "w\<lparr>log := l\<rparr>"] assms
  by (simp add: isEnabled_Panicked_log bsd_verb_log)

lemma bsd_Start_active:
  assumes "privileged w" and "fst (bsd_IsInstalled bsd w)"
    and "bsd_checkRunning bsd w = Returned ((m, False), w1)"
  shows "\<exists>r. bsd_Start bsd w =
     Returned (r, w\<lparr>log := log w @ bsd_probe_trace bsd w @
                      [Open rc_conf, Exec [''service'', name bsd, bsd_verb bsd ''start'' w]]\<rparr>)"
proof -
  from bsd_checkRunning_Returned [OF assms(3)]
  have w1: "w1 = w\<lparr>log := log w @ bsd_probe_trace bsd w\<rparr>" and np: "bsd_isEnabled bsd w \<noteq> Panicked"
    by simp_all
  have g: "bsd_getCmd bsd ''start'' w1 =
      Returned (bsd_verb bsd ''start'' w, w\<lparr>log := (log w @ bsd_probe_trace bsd w) @ [Open rc_conf]\<rparr>)"
    unfolding w1 by (rule getCmd_after_probe [OF np])
  from bsd_Start_not_running [OF assms g] show ?thesis
    by simp
qed

lemma bsd_Stop_active:
  assumes "privileged w" and "fst (bsd_IsInstalled bsd w)"
    and "bsd_checkRunning bsd w = Returned ((m, True), w1)"
  shows "\<exists>r. bsd_Stop bsd w =
     Returned (r, w\<lparr>log := log w @ bsd_probe_trace bsd w @
                      [Open rc_conf, Exec [''service'', name bsd, bsd_verb bsd ''stop'' w]]\<rparr>)"
proof -
  from bsd_checkRunning_Returned [OF assms(3)]
  have w1: "w1 = w\<lparr>log := log w @ bsd_probe_trace bsd w\<rparr>" and np: "bsd_isEnabled bsd w \<noteq> Panicked"
    by simp_all
  have g: "bsd_getCmd bsd ''stop'' w1 =
      Returned (bsd_verb bsd ''stop'' w, w\<lparr>log := (log w @ bsd_probe_trace bsd w) @ [Open rc_conf]\<rparr>)"
    unfolding w1 by (rule getCmd_after_probe [OF np])
  from bsd_Stop_running [OF assms g] show ?thesis
    by simp
qed

lemma bsd_Start_trace:
  assumes "bsd_Start bsd w = Returned (r, w')"
  shows "log w' = log w \<or> log w' = log w @ bsd_probe_trace bsd w \<or>
         log w' = log w @ bsd_probe_trace bsd w @
            [Open rc_conf, Exec [''service'', name bsd, bsd_verb bsd ''start'' w]]"
proof (cases "privileged w \<and> fst (bsd_IsInstalled bsd w)")
  case False
  then show ?thesis
    using assms bsd_Start_unprivileged [of w bsd] bsd_Start_not_installed [of w bsd] by auto
next
  case True
  show ?thesis
  proof (cases "bsd_checkRunning bsd w")
    case Panicked
    with True assms bsd_Start_panic [of w bsd] show ?thesis by simp
  next
    case (Returned x)
    obtain m b w1 where x: "x = ((m, b), w1)" by (cases x) auto
    show ?thesis
    proof (cases b)
      case True
      with \<open>privileged w \<and> fst (bsd_IsInstalled bsd w)\<close> Returned x assms
        bsd_Start_running [of w bsd m w1] bsd_checkRunning_Returned [of bsd w "(m, b)" w1]
      show ?thesis by auto
    next
      case False
      with \<open>privileged w \<and> fst (bsd_IsInstalled bsd w)\<close> Returned x assms
        bsd_Start_active [of w bsd m w1]
      show ?thesis by auto
    qed
  qed
qed

lemma bsd_Stop_trace:
  assumes "bsd_Stop bsd w = Returned (r, w')"
  shows "log w' = log w \<or> log w' = log w @ bsd_probe_trace bsd w \<or>
         log w' = log w @ bsd_probe_trace bsd w @
            [Open rc_conf, Exec [''service'', name bsd, bsd_verb bsd ''stop'' w]]"
proof (cases "privileged w \<and> fst (bsd_IsInstalled bsd w)")
  case False
  then show ?thesis
    using assms bsd_Stop_unprivileged [of w bsd] bsd_Stop_not_installed [of w bsd] by auto
next
  case True
  show ?thesis
  proof (cases "bsd_checkRunning bsd w")
    case Panicked
    with True assms bsd_Stop_panic [of w bsd] show ?thesis by simp
  next
    case (Returned x)
    obtain m b w1 where x: "x = ((m, b), w1)" by (cases x) auto
    show ?thesis
    proof (cases b)
      case False
      with \<open>privileged w \<and> fst (bsd_IsInstalled bsd w)\<close> Returned x assms
        bsd_Stop_stopped [of w bsd m w1] bsd_checkRunning_Returned [of bsd w "(m, b)" w1]
      show ?thesis by auto
    next
      case True
      with \<open>privileged w \<and> fst (bsd_IsInstalled bsd w)\<close> Returned x assms
        bsd_Stop_active [of w bsd m w1]
      show ?thesis by auto
    qed
  qed
qed

lemma result_checkRunning:
  "result (bsd_checkRunning bsd w) = Some r \<Longrightarrow> \<exists>w1. bsd_checkRunning bsd w = Returned (r, w1)"
  by (cases "bsd_checkRunning bsd w") (auto simp: result_def)

text \<open>
  C7. On rc.d, every \<^verbatim>\<open>Start\<close> (\<^verbatim>\<open>Stop\<close>) call that returns has done one of three things:
  nothing, the status probe only, or the status probe followed by a read of the boot
  configuration and then the command \<^verbatim>\<open>service <name> <verb>\<close>. The read comes right
  before the command, and the verb is \<^verbatim>\<open>start\<close> (\<^verbatim>\<open>stop\<close>) when \<^verbatim>\<open>isEnabled\<close> returned
  true with a nil error and \<^verbatim>\<open>onestart\<close> (\<^verbatim>\<open>onestop\<close>) otherwise. With privileges, the
  descriptor installed and the probe reporting stopped (running), the call returns and
  the command is issued.
\<close>

theorem bsd_Start_Stop_verb_selection:
  "(\<forall>r w'. bsd_Start bsd w = Returned (r, w') \<longrightarrow>
      log w' = log w \<or> log w' = log w @ bsd_probe_trace bsd w \<or>
      log w' = log w @ bsd_probe_trace bsd w @
         [Open rc_conf,
          Exec [''service'', name bsd, if bsd_enabled bsd w then ''start'' else ''onestart'']]) \<and>
   (\<forall>m. privileged w \<and> fst (bsd_IsInstalled bsd w) \<and>
        result (bsd_checkRunning bsd w) = Some (m, False) \<longrightarrow>
      (\<exists>r w'. bsd_Start bsd w = Returned (r, w') \<and>
         log w' = log w @ bsd_probe_trace bsd w @
           [Open rc_conf,
            Exec [''service'', name bsd, if bsd_enabled bsd w then ''start'' else ''onestart'']])) \<and>
   (\<forall>r w'. bsd_Stop bsd w = Returned (r, w') \<longrightarrow>
      log w' = log w \<or> log w' = log w @ bsd_probe_trace bsd w \<or>
      log w' = log w @ bsd_probe_trace bsd w @
         [Open rc_conf,
          Exec [''service'', name bsd, if bsd_enabled bsd w then ''stop'' else ''onestop'']]) \<and>
   (\<forall>m. privileged w \<and> fst (bsd_IsInstalled bsd w) \<and>
        result (bsd_checkRunning bsd w) = Some (m, True) \<longrightarrow>
      (\<exists>r w'. bsd_Stop bsd w = Returned (r, w') \<and>
         log w' = log w @ bsd_probe_trace bsd w @
           [Open rc_conf,
            Exec [''service'', name bsd, if bsd_enabled bsd w then ''stop'' else ''onestop'']]))"
proof (intro conjI allI impI)
  fix r w'
  assume "bsd_Start bsd w = Returned (r, w')"
  from bsd_Start_trace [OF this]
  show "log w' = log w \<or> log w' = log w @ bsd_probe_trace bsd w \<or>
      log w' = log w @ bsd_probe_trace bsd w @
         [Open rc_conf,
          Exec [''service'', name bsd, if bsd_enabled bsd w then ''start'' else ''onestart'']]"
    by (cases "bsd_enabled bsd w") (simp_all add: bsd_verb_def)
next
  fix m
  assume a: "privileged w \<and> fst (bsd_IsInstalled bsd w) \<and>
        result (bsd_checkRunning bsd w) = Some (m, False)"
  then obtain w1 where "bsd_checkRunning bsd w = Returned ((m, False), w1)"
    using result_checkRunning by blast
  with a bsd_Start_active [of w bsd m w1]
  obtain r where "bsd_Start bsd w =
     Returned (r, w\<lparr>log := log w @ bsd_probe_trace bsd w @
                      [Open rc_conf, Exec [''service'', name bsd, bsd_verb bsd ''start'' w]]\<rparr>)"
    by auto
  then show "\<exists>r w'. bsd_Start bsd w = Returned (r, w') \<and>
         log w' = log w @ bsd_probe_trace bsd w @
           [Open rc_conf,
            Exec [''service'', name bsd, if bsd_enabled bsd w then ''start'' else ''onestart'']]"
    by (cases "bsd_enabled bsd w") (simp_all add: bsd_verb_def)
next
  fix r w'
  assume "bsd_Stop bsd w = Returned (r, w')"
  from bsd_Stop_trace [OF this]
  show "log w' = log w \<or> log w' = log w @ bsd_probe_trace bsd w \<or>
      log w' = log w @ bsd_probe_trace bsd w @
         [Open rc_conf,
          Exec [''service'', name bsd, if bsd_enabled bsd w then ''stop'' else ''onestop'']]"
    by (cases "bsd_enabled bsd w") (simp_all add: bsd_verb_def)
next
  fix m
  assume a: "privileged w \<and> fst (bsd_IsInstalled bsd w) \<and>
        result (bsd_checkRunning bsd w) = Some (m, True)"
  then obtain w1 where "bsd_checkRunning bsd w = Returned ((m, True), w1)"
    using result_checkRunning by blast
  with a bsd_Stop_active [of w bsd m w1]
  obtain r where "bsd_Stop bsd w =
     Returned (r, w\<lparr>log := log w @ bsd_probe_trace bsd w @
                      [Open rc_conf, Exec [''service'', name bsd, bsd_verb bsd ''stop'' w]]\<rparr>)"
    by auto
  then show "\<exists>r w'. bsd_Stop bsd w = Returned (r, w') \<and>
         log w' = log w @ bsd_probe_trace bsd w @
           [Open rc_conf,
            Exec [''service'', name bsd, if bsd_enabled bsd w then ''stop'' else ''onestop'']]"
    by (cases "bsd_enabled bsd w") (simp_all add: bsd_verb_def)
qed

lemma svc_world_simps [simp]:
  "privileged (svc_world rc res)" "log (svc_world rc res) = []"
  "cmd_result (svc_world rc res) argv = res"
  "fault (svc_world rc res) c = None"
  "fs (svc_world rc res) = installed_fs(rc_conf \<mapsto> File rc 420)"
  by (simp_all add: svc_world_def ex_world_def)

lemma svc_bsd_installed: "bsd_IsInstalled foo_rec (svc_world rc res) = (True, None)"
  by (simp add: bsd_IsInstalled_def os_Stat_def installed_fs_def rc_conf_def
      bsd_servicePath_def darwin_servicePath_def foo_rec_def foo_plist_def)

lemma svc_darwin_installed: "darwin_IsInstalled foo_plist (svc_world rc res) = (True, None)"
  by (simp add: darwin_IsInstalled_def os_Stat_def installed_fs_def rc_conf_def
      bsd_servicePath_def darwin_servicePath_def foo_rec_def foo_plist_def)

lemma svc_open: "fst (os_Open_ReadAll rc_conf (svc_world rc res)) = Inr rc"
  by (simp add: os_Open_ReadAll_def Let_def)

lemma svc_isEnabled:
  "result (bsd_isEnabled foo_rec (svc_world rc res)) =
     Some (fst (scanLine (case find (sublist (enable_text ''foo'')) (lines_of rc) of
                       None \<Rightarrow> [] | Some l \<Rightarrow> l) False False), None)"
  using isEnabled_readable [of foo_rec "svc_world rc res" rc]
  by (simp add: svc_open plain_foo foo_rec_def)

lemma svc_enabled: \<open>bsd_enabled foo_rec (svc_world ''foo_enable="YES"'' res)\<close>
  by (simp add: bsd_enabled_def svc_isEnabled enable_text_def sublist_code)

lemma svc_not_enabled: \<open>\<not> bsd_enabled foo_rec (svc_world [] res)\<close>
  by (simp add: bsd_enabled_def svc_isEnabled enable_text_def sublist_code)

lemma plain_foo_rec: "plain_name (name foo_rec)" "plain_name (dname foo_plist)"
  by (simp_all add: foo_rec_def foo_plist_def plain_foo)

lemma find_pid_bsd:
  "find_digits ''pid  '' [] ''foo is running as pid  1234.'' = Some ''1234''"
  by (simp add: match_here_def is_digit_def)

lemma find_pid_darwin:
  \<open>find_digits ''PID" = '' '';'' ''"Label" = "foo"; "PID" = 4321;'' = Some ''4321''\<close>
  by (simp add: match_here_def is_digit_def)

lemma foo_fields [simp]:
  "name foo_rec = ''foo''" "description foo_rec = ''Foo daemon''"
  "execStartPath foo_rec = ''/usr/local/bin/foo''"
  "dname foo_plist = ''foo''" "ddescription foo_plist = ''Foo daemon''"
  "dexecStartPath foo_plist = ''/usr/local/bin/foo''"
  by (simp_all add: foo_rec_def foo_plist_def)

lemma svc_bsd_checkRunning:
  "result (bsd_checkRunning foo_rec (svc_world [] (''foo is running as pid  1234.'', None))) =
     Some (''Service (pid  1234) is running...'', True)"
  unfolding bsd_checkRunning_plain [OF plain_foo_rec(1)]
  by (simp add: probe_plain plain_foo bsd_pid_prefix_def find_pid_bsd running_msg_def
      sublist_code del: find_digits.simps)

lemma svc_darwin_checkRunning:
  \<open>fst (darwin_checkRunning foo_plist (svc_world [] (''"Label" = "foo"; "PID" = 4321;'', None))) =
     (''Service (pid  4321) is running...'', True)\<close>
  by (simp add: darwin_checkRunning_eq probe_plain plain_foo
      darwin_pid_prefix_def find_pid_darwin running_msg_def sublist_code
      del: find_digits.simps)

lemma svc_bsd_stopped:
  "result (bsd_checkRunning foo_rec (svc_world rc ([], None))) = Some (''Service is stopped'', False)"
  unfolding bsd_checkRunning_plain [OF plain_foo_rec(1)]
  by (simp add: probe_plain plain_foo)




theorem bsd_Start_Stop_verb_selection_witness:
  \<open>privileged (svc_world ''foo_enable="YES"'' ([], None)) \<and>
   fst (bsd_IsInstalled foo_rec (svc_world ''foo_enable="YES"'' ([], None))) \<and>
   result (bsd_checkRunning foo_rec (svc_world ''foo_enable="YES"'' ([], None))) =
     Some (''Service is stopped'', False) \<and>
   (\<exists>r w'. bsd_Start foo_rec (svc_world ''foo_enable="YES"'' ([], None)) = Returned (r, w') \<and>
      log w' = [Open rc_conf, Exec [''service'', ''foo'', ''status''],
                Open rc_conf, Exec [''service'', ''foo'', ''start'']])\<close>
proof -
  let ?w = \<open>svc_world ''foo_enable="YES"'' ([], None)\<close>
  have h: "privileged ?w \<and> fst (bsd_IsInstalled foo_rec ?w) \<and>
      result (bsd_checkRunning foo_rec ?w) = Some (''Service is stopped'', False)"
    by (simp add: svc_bsd_installed svc_bsd_stopped)
  note t = bsd_Start_Stop_verb_selection [of foo_rec ?w, THEN conjunct2, THEN conjunct1,
      THEN spec, THEN mp, OF h]
  have e: "bsd_enabled foo_rec ?w"
    by (rule svc_enabled)
  from t e have "\<exists>r w'. bsd_Start foo_rec ?w = Returned (r, w') \<and>
      log w' = [Open rc_conf, Exec [''service'', ''foo'', ''status''],
                Open rc_conf, Exec [''service'', ''foo'', ''start'']]"
    by (simp add: bsd_probe_trace_def bsd_verb_def)
  with h show ?thesis by simp
qed

subsection \<open>Start on a running service\<close>

lemma darwin_Start_running:
  assumes "privileged w" and "fst (darwin_IsInstalled darwin w)"
    and "snd (fst (darwin_checkRunning darwin w))"
  shows "darwin_Start darwin w =
     ((''Starting '' @ ddescription darwin @ '':'' @ failed, Some ErrAlreadyRunning),
      w\<lparr>log := log w @ [Exec [''launchctl'', ''list'', dname darwin]]\<rparr>)"
proof -
  obtain m b w1 where c: "darwin_checkRunning darwin w = ((m, b), w1)"
    by (cases "darwin_checkRunning darwin w") auto
  with assms(3) have b by simp
  from c have w1: "w1 = w\<lparr>log := log w @ [Exec [''launchctl'', ''list'', dname darwin]]\<rparr>"
    by (simp add: darwin_checkRunning_eq)
  show ?thesis
    using assms(1,2) c \<open>b\<close> w1
    by (cases "darwin_IsInstalled darwin w") (simp add: darwin_Start_def checkPrivileges_def)
qed

lemma bsd_Start_running_trace:
  assumes "privileged w" and "fst (bsd_IsInstalled bsd w)"
    and "result (bsd_checkRunning bsd w) = Some (m, True)"
  shows "bsd_Start bsd w =
     Returned ((''Starting '' @ description bsd @ '':'' @ failed, Some ErrAlreadyRunning),
       w\<lparr>log := log w @ [Open rc_conf,
            Exec [''service'', name bsd, if bsd_enabled bsd w then ''status'' else ''onestatus'']]\<rparr>)"
proof -
  from assms(3) obtain w1 where c: "bsd_checkRunning bsd w = Returned ((m, True), w1)"
    using result_checkRunning by blast
  from bsd_checkRunning_Returned [OF c]
  have "w1 = w\<lparr>log := log w @ bsd_probe_trace bsd w\<rparr>" by simp
  then have "w1 = w\<lparr>log := log w @ [Open rc_conf,
            Exec [''service'', name bsd, if bsd_enabled bsd w then ''status'' else ''onestatus'']]\<rparr>"
    by (cases "bsd_enabled bsd w") (simp_all add: bsd_probe_trace_def bsd_verb_def)
  with bsd_Start_running [OF assms(1,2) c] show ?thesis by simp
qed

text \<open>
  C8, as amended. A \<^verbatim>\<open>Start\<close> call made with privileges, on an installed service that the
  status probe reports running, returns the failure-suffixed message with
  \<^verbatim>\<open>ErrAlreadyRunning\<close>; the only commands it has issued are those of the probe itself
  (\<^verbatim>\<open>service <name> status\<close> or \<^verbatim>\<open>onestatus\<close> after the read of the boot configuration on
  rc.d, \<^verbatim>\<open>launchctl list <name>\<close> on launchd), and nothing else of the world has changed:
  no start command is issued.
\<close>

theorem Start_already_running:
  "(privileged w \<and> fst (bsd_IsInstalled bsd w) \<and>
      result (bsd_checkRunning bsd w) = Some (m, True) \<longrightarrow>
    bsd_Start bsd w =
      Returned ((''Starting '' @ description bsd @ '':'' @ failed, Some ErrAlreadyRunning),
        w\<lparr>log := log w @ [Open rc_conf,
             Exec [''service'', name bsd,
                   if bsd_enabled bsd w then ''status'' else ''onestatus'']]\<rparr>)) \<and>
   (privileged w \<and> fst (darwin_IsInstalled darwin w) \<and>
      snd (fst (darwin_checkRunning darwin w)) \<longrightarrow>
    darwin_Start darwin w =
      ((''Starting '' @ ddescription darwin @ '':'' @ failed, Some ErrAlreadyRunning),
       w\<lparr>log := log w @ [Exec [''launchctl'', ''list'', dname darwin]]\<rparr>))"
  using bsd_Start_running_trace [of w bsd m] darwin_Start_running [of w darwin] by blast

lemma svc_darwin_running:
  "fst (darwin_checkRunning foo_plist (svc_world [] (running_out, None))) =
     (''Service is running...'', True)"
  by (simp add: darwin_checkRunning_eq probe_plain plain_foo darwin_pid_prefix_def
      running_msg_def sublist_code running_out_def match_here_def)

lemma svc_bsd_running:
  "result (bsd_checkRunning foo_rec (svc_world [] (running_out, None))) =
     Some (''Service (pid  1234) is running...'', True)"
  using svc_bsd_checkRunning by (simp add: running_out_def)

theorem Start_already_running_witness:
  "privileged (svc_world [] (running_out, None)) \<and>
   fst (bsd_IsInstalled foo_rec (svc_world [] (running_out, None))) \<and>
   result (bsd_checkRunning foo_rec (svc_world [] (running_out, None))) =
     Some (''Service (pid  1234) is running...'', True) \<and>
   fst (darwin_IsInstalled foo_plist (svc_world [] (running_out, None))) \<and>
   snd (fst (darwin_checkRunning foo_plist (svc_world [] (running_out, None)))) \<and>
   result (bsd_Start foo_rec (svc_world [] (running_out, None))) =
     Some (''Starting Foo daemon:failed'', Some ErrAlreadyRunning) \<and>
   fst (darwin_Start foo_plist (svc_world [] (running_out, None))) =
     (''Starting Foo daemon:failed'', Some ErrAlreadyRunning)"
proof -
  let ?w = "svc_world [] (running_out, None)"
  have hb: "privileged ?w \<and> fst (bsd_IsInstalled foo_rec ?w) \<and>
      result (bsd_checkRunning foo_rec ?w) = Some (''Service (pid  1234) is running...'', True)"
    by (simp add: svc_bsd_installed svc_bsd_running)
  have hd: "privileged ?w \<and> fst (darwin_IsInstalled foo_plist ?w) \<and>
      snd (fst (darwin_checkRunning foo_plist ?w))"
    by (simp add: svc_darwin_installed svc_darwin_running)
  note t = Start_already_running [of ?w foo_rec _ foo_plist]
  from t [THEN conjunct1, THEN mp, OF hb] t [THEN conjunct2, THEN mp, OF hd] hb hd
  show ?thesis
    by (simp add: failed_def)
qed

text \<open>
  C8 as stated says that no service-manager command is issued. On a running service
  \<^verbatim>\<open>foo\<close>, starting from an empty log, \<^verbatim>\<open>Start\<close> returns \<^verbatim>\<open>ErrAlreadyRunning\<close> and has run
  \<^verbatim>\<open>service foo onestatus\<close> on rc.d and \<^verbatim>\<open>launchctl list foo\<close> on launchd: the probe that
  finds the service running is itself a command to the service manager.
\<close>

theorem Start_running_issues_probe_counterexample:
  "log (svc_world [] (running_out, None)) = [] \<and>
   result (bsd_Start foo_rec (svc_world [] (running_out, None))) =
     Some (''Starting Foo daemon:failed'', Some ErrAlreadyRunning) \<and>
   map_option log (world_after (bsd_Start foo_rec (svc_world [] (running_out, None)))) =
     Some [Open ''/etc/rc.conf'', Exec [''service'', ''foo'', ''onestatus'']] \<and>
   fst (darwin_Start foo_plist (svc_world [] (running_out, None))) =
     (''Starting Foo daemon:failed'', Some ErrAlreadyRunning) \<and>
   log (snd (darwin_Start foo_plist (svc_world [] (running_out, None)))) =
     [Exec [''launchctl'', ''list'', ''foo'']]"
proof -
  let ?w = "svc_world [] (running_out, None)"
  have b: "bsd_Start foo_rec ?w =
      Returned ((''Starting Foo daemon:failed'', Some ErrAlreadyRunning),
        ?w\<lparr>log := [Open ''/etc/rc.conf'', Exec [''service'', ''foo'', ''onestatus'']]\<rparr>)"
    using bsd_Start_running_trace [of ?w foo_rec "''Service (pid  1234) is running...''"]
    by (simp add: svc_bsd_installed svc_bsd_running svc_not_enabled failed_def rc_conf_def)
  have d: "darwin_Start foo_plist ?w =
      ((''Starting Foo daemon:failed'', Some ErrAlreadyRunning),
        ?w\<lparr>log := [Exec [''launchctl'', ''list'', ''foo'']]\<rparr>)"
    using darwin_Start_running [of ?w foo_plist]
    by (simp add: svc_darwin_installed svc_darwin_running failed_def)
  show ?thesis
    by (simp add: b d world_after_def)
qed

subsection \<open>Install\<close>

lemma bsd_Install_unprivileged:
  "\<not> privileged w \<Longrightarrow>
   bsd_Install bsd args w =
     Returned ((''Install '' @ description bsd @ '':'' @ failed, Some ErrRootPrivileges), bsd, w)"
  by (simp add: bsd_Install_def checkPrivileges_def)

lemma bsd_Install_installed:
  "privileged w \<Longrightarrow> fst (bsd_IsInstalled bsd w) \<Longrightarrow>
   bsd_Install bsd args w =
     Returned ((''Install '' @ description bsd @ '':'' @ failed, None), bsd, w)"
  using IsInstalled_bsd [of bsd w]
  by (cases "bsd_IsInstalled bsd w") (simp add: bsd_Install_def checkPrivileges_def)

lemma bsd_Install_unresolved:
  "privileged w \<Longrightarrow> \<not> fst (bsd_IsInstalled bsd w) \<Longrightarrow>
   bsd_resolvePath bsd w = (bsd1, Some e) \<Longrightarrow>
   bsd_Install bsd args w =
     Returned ((''Install '' @ description bsd @ '':'' @ failed, Some e), bsd1, w)"
  by (cases "bsd_IsInstalled bsd w") (simp add: bsd_Install_def checkPrivileges_def)

lemma bsd_Install_no_path:
  "privileged w \<Longrightarrow> \<not> fst (bsd_IsInstalled bsd w) \<Longrightarrow>
   bsd_resolvePath bsd w = (bsd1, None) \<Longrightarrow>
   os_IsNotExist (snd (os_Stat (execStartPath bsd1) w)) \<Longrightarrow>
   bsd_Install bsd args w =
     Returned ((''Install '' @ description bsd @ '':'' @ failed, Some ErrIncorrectExecStartPath),
               bsd1, w)"
  by (cases "bsd_IsInstalled bsd w"; cases "os_Stat (execStartPath bsd1) w")
     (simp add: bsd_Install_def checkPrivileges_def)

lemma bsd_Install_stat_error:
  "privileged w \<Longrightarrow> \<not> fst (bsd_IsInstalled bsd w) \<Longrightarrow>
   bsd_resolvePath bsd w = (bsd1, None) \<Longrightarrow>
   os_Stat (execStartPath bsd1) w = (None, e) \<Longrightarrow> \<not> os_IsNotExist e \<Longrightarrow>
   bsd_Install bsd args w = Panicked"
  by (cases "bsd_IsInstalled bsd w") (simp add: bsd_Install_def checkPrivileges_def)

lemma bsd_Install_dir:
  "privileged w \<Longrightarrow> \<not> fst (bsd_IsInstalled bsd w) \<Longrightarrow>
   bsd_resolvePath bsd w = (bsd1, None) \<Longrightarrow>
   os_Stat (execStartPath bsd1) w = (Some info, e) \<Longrightarrow> \<not> os_IsNotExist e \<Longrightarrow> isDir info \<Longrightarrow>
   bsd_Install bsd args w =
     Returned ((''Install '' @ description bsd @ '':'' @ failed, Some ErrIncorrectExecStartPath),
               bsd1, w)"
  by (cases "bsd_IsInstalled bsd w") (simp add: bsd_Install_def checkPrivileges_def)

lemma bsd_Install_create_fails:
  "bsd_checks_pass bsd w bsd1 \<Longrightarrow> os_Create (bsd_servicePath bsd) w = (Some e, w1) \<Longrightarrow>
   bsd_Install bsd args w =
     Returned ((''Install '' @ description bsd @ '':'' @ failed, Some e), bsd1, w1)"
  by (cases "bsd_IsInstalled bsd w")
     (simp add: bsd_Install_def checkPrivileges_def bsd_checks_pass_def os_IsNotExist_def)

lemma bsd_Install_parse_fails:
  "bsd_checks_pass bsd w bsd1 \<Longrightarrow> os_Create (bsd_servicePath bsd) w = (None, w1) \<Longrightarrow>
   template_Parse w1 = Some e \<Longrightarrow>
   bsd_Install bsd args w =
     Returned ((''Install '' @ description bsd @ '':'' @ failed, Some e), bsd1, w1)"
  by (cases "bsd_IsInstalled bsd w")
     (simp add: bsd_Install_def checkPrivileges_def bsd_checks_pass_def os_IsNotExist_def)

lemma bsd_Install_write_fails:
  "bsd_checks_pass bsd w bsd1 \<Longrightarrow> os_Create (bsd_servicePath bsd) w = (None, w1) \<Longrightarrow>
   template_Parse w1 = None \<Longrightarrow>
   file_Write (bsd_servicePath bsd) (bsd_text bsd1 args) w1 = (Some e, w2) \<Longrightarrow>
   bsd_Install bsd args w =
     Returned ((''Install '' @ description bsd @ '':'' @ failed, Some e), bsd1, w2)"
  by (cases "bsd_IsInstalled bsd w")
     (simp add: bsd_Install_def checkPrivileges_def bsd_checks_pass_def os_IsNotExist_def
        bsd_text_def)

lemma bsd_Install_chmod_fails:
  "bsd_checks_pass bsd w bsd1 \<Longrightarrow> os_Create (bsd_servicePath bsd) w = (None, w1) \<Longrightarrow>
   template_Parse w1 = None \<Longrightarrow>
   file_Write (bsd_servicePath bsd) (bsd_text bsd1 args) w1 = (None, w2) \<Longrightarrow>
   os_Chmod (bsd_servicePath bsd) 493 w2 = (Some e, w3) \<Longrightarrow>
   bsd_Install bsd args w =
     Returned ((''Install '' @ description bsd @ '':'' @ failed, Some e), bsd1, w3)"
  by (cases "bsd_IsInstalled bsd w")
     (simp add: bsd_Install_def checkPrivileges_def bsd_checks_pass_def os_IsNotExist_def
        bsd_text_def)

lemma bsd_Install_succeeds:
  "bsd_checks_pass bsd w bsd1 \<Longrightarrow> os_Create (bsd_servicePath bsd) w = (None, w1) \<Longrightarrow>
   template_Parse w1 = None \<Longrightarrow>
   file_Write (bsd_servicePath bsd) (bsd_text bsd1 args) w1 = (None, w2) \<Longrightarrow>
   os_Chmod (bsd_servicePath bsd) 493 w2 = (None, w3) \<Longrightarrow>
   bsd_Install bsd args w =
     Returned ((''Install '' @ description bsd @ '':'' @ success, None), bsd1, w3)"
  by (cases "bsd_IsInstalled bsd w")
     (simp add: bsd_Install_def checkPrivileges_def bsd_checks_pass_def os_IsNotExist_def
        bsd_text_def)

lemma darwin_Install_unprivileged:
  "\<not> privileged w \<Longrightarrow>
   darwin_Install darwin args w =
     Returned ((''Install '' @ ddescription darwin @ '':'' @ failed, Some ErrRootPrivileges),
               darwin, w)"
  by (simp add: darwin_Install_def checkPrivileges_def)

lemma darwin_Install_installed:
  "privileged w \<Longrightarrow> fst (darwin_IsInstalled darwin w) \<Longrightarrow>
   darwin_Install darwin args w =
     Returned ((''Install '' @ ddescription darwin @ '':'' @ failed, None), darwin, w)"
  using IsInstalled_darwin [of darwin w]
  by (cases "darwin_IsInstalled darwin w") (simp add: darwin_Install_def checkPrivileges_def)

lemma darwin_Install_unresolved:
  "privileged w \<Longrightarrow> \<not> fst (darwin_IsInstalled darwin w) \<Longrightarrow>
   darwin_resolvePath darwin w = (darwin1, Some e) \<Longrightarrow>
   darwin_Install darwin args w =
     Returned ((''Install '' @ ddescription darwin @ '':'' @ failed, Some e), darwin1, w)"
  by (cases "darwin_IsInstalled darwin w") (simp add: darwin_Install_def checkPrivileges_def)

lemma darwin_Install_no_path:
  "privileged w \<Longrightarrow> \<not> fst (darwin_IsInstalled darwin w) \<Longrightarrow>
   darwin_resolvePath darwin w = (darwin1, None) \<Longrightarrow>
   os_IsNotExist (snd (os_Stat (dexecStartPath darwin1) w)) \<Longrightarrow>
   darwin_Install darwin args w =
     Returned ((''Install '' @ ddescription darwin @ '':'' @ failed,
                Some ErrIncorrectExecStartPath), darwin1, w)"
  by (cases "darwin_IsInstalled darwin w"; cases "os_Stat (dexecStartPath darwin1) w")
     (simp add: darwin_Install_def checkPrivileges_def)

lemma darwin_Install_stat_error:
  "privileged w \<Longrightarrow> \<not> fst (darwin_IsInstalled darwin w) \<Longrightarrow>
   darwin_resolvePath darwin w = (darwin1, None) \<Longrightarrow>
   os_Stat (dexecStartPath darwin1) w = (None, e) \<Longrightarrow> \<not> os_IsNotExist e \<Longrightarrow>
   darwin_Install darwin args w = Panicked"
  by (cases "darwin_IsInstalled darwin w") (simp add: darwin_Install_def checkPrivileges_def)

lemma darwin_Install_dir:
  "privileged w \<Longrightarrow> \<not> fst (darwin_IsInstalled darwin w) \<Longrightarrow>
   darwin_resolvePath darwin w = (darwin1, None) \<Longrightarrow>
   os_Stat (dexecStartPath darwin1) w = (Some info, e) \<Longrightarrow> \<not> os_IsNotExist e \<Longrightarrow>
   isDir info \<Longrightarrow>
   darwin_Install darwin args w =
     Returned ((''Install '' @ ddescription darwin @ '':'' @ failed,
                Some ErrIncorrectExecStartPath), darwin1, w)"
  by (cases "darwin_IsInstalled darwin w") (simp add: darwin_Install_def checkPrivileges_def)

lemma darwin_Install_create_fails:
  "darwin_checks_pass darwin w darwin1 \<Longrightarrow>
   os_Create (darwin_servicePath darwin) w = (Some e, w1) \<Longrightarrow>
   darwin_Install darwin args w =
     Returned ((''Install '' @ ddescription darwin @ '':'' @ failed, Some e), darwin1, w1)"
  by (cases "darwin_IsInstalled darwin w")
     (simp add: darwin_Install_def checkPrivileges_def darwin_checks_pass_def os_IsNotExist_def)

lemma darwin_Install_parse_fails:
  "darwin_checks_pass darwin w darwin1 \<Longrightarrow>
   os_Create (darwin_servicePath darwin) w = (None, w1) \<Longrightarrow> template_Parse w1 = Some e \<Longrightarrow>
   darwin_Install darwin args w =
     Returned ((''Install '' @ ddescription darwin @ '':'' @ failed, Some e), darwin1, w1)"
  by (cases "darwin_IsInstalled darwin w")
     (simp add: darwin_Install_def checkPrivileges_def darwin_checks_pass_def os_IsNotExist_def)

lemma darwin_Install_write_fails:
  "darwin_checks_pass darwin w darwin1 \<Longrightarrow>
   os_Create (darwin_servicePath darwin) w = (None, w1) \<Longrightarrow> template_Parse w1 = None \<Longrightarrow>
   file_Write (darwin_servicePath darwin) (darwin_text darwin1 args) w1 = (Some e, w2) \<Longrightarrow>
   darwin_Install darwin args w =
     Returned ((''Install '' @ ddescription darwin @ '':'' @ failed, Some e), darwin1, w2)"
  by (cases "darwin_IsInstalled darwin w")
     (simp add: darwin_Install_def checkPrivileges_def darwin_checks_pass_def os_IsNotExist_def
        darwin_text_def)

lemma darwin_Install_succeeds:
  "darwin_checks_pass darwin w darwin1 \<Longrightarrow>
   os_Create (darwin_servicePath darwin) w = (None, w1) \<Longrightarrow> template_Parse w1 = None \<Longrightarrow>
   file_Write (darwin_servicePath darwin) (darwin_text darwin1 args) w1 = (None, w2) \<Longrightarrow>
   darwin_Install darwin args w =
     Returned ((''Install '' @ ddescription darwin @ '':'' @ success, None), darwin1, w2)"
  by (cases "darwin_IsInstalled darwin w")
     (simp add: darwin_Install_def checkPrivileges_def darwin_checks_pass_def os_IsNotExist_def
        darwin_text_def)

lemma os_Create_ok:
  assumes "os_Create p w = (None, w1)"
  shows "\<exists>m. w1 = w\<lparr>fs := (fs w)(p \<mapsto> File [] m)\<rparr>"
  using assms by (auto simp: os_Create_def split: option.splits node.splits)



lemma file_Write_ok:
  "write_fault w = None \<Longrightarrow>
   \<exists>m. file_Write p t w = (None, w\<lparr>fs := (fs w)(p \<mapsto> File t m)\<rparr>)"
  by (simp add: file_Write_def Let_def) (rule exI, rule refl)



lemma stat_not_dir:
  assumes "os_Stat p w = (Some info, e)" and "\<not> isDir info"
  shows "os_Stat p w = (Some \<lparr>isDir = False\<rparr>, None)"
  using assms by (auto simp: os_Stat_def split: option.splits node.splits)






lemma full_disk_simps [simp]:
  "privileged full_disk_world" "fault full_disk_world c = None"
  "parse_fault full_disk_world = None"
  "write_fault full_disk_world = Some (23, OsError ''no space left on device'')"
  "fs full_disk_world = [''/usr/local/bin/foo'' \<mapsto> File [] 493]"
  by (simp_all add: full_disk_world_def ex_world_def)






lemma stat_fault_simps [simp]:
  "privileged stat_fault_world" "fs stat_fault_world = Map.empty"
  "fault stat_fault_world c =
     (if c = SysStat ''/etc/passwd/foo'' then Some (OsError ''not a directory'') else None)"
  by (simp_all add: stat_fault_world_def ex_world_def)

text \<open>
  C4 fails on the code. With an execution path whose \<^verbatim>\<open>os.Stat\<close> fails with an error
  other than not-found (here \<^verbatim>\<open>/etc/passwd/foo\<close>, not a directory), \<^verbatim>\<open>stat\<close> is nil,
  \<^verbatim>\<open>os.IsNotExist(err)\<close> is false and \<^verbatim>\<open>stat.IsDir()\<close> panics: \<^verbatim>\<open>Install\<close> returns no
  (message, error) pair on either variant.
\<close>

theorem Install_stat_error_panics:
  "bsd_Install (foo_rec\<lparr>execStartPath := ''/etc/passwd/foo''\<rparr>) [] stat_fault_world = Panicked \<and>
   darwin_Install (foo_plist\<lparr>dexecStartPath := ''/etc/passwd/foo''\<rparr>) [] stat_fault_world =
     Panicked"
proof
  let ?r = "foo_rec\<lparr>execStartPath := ''/etc/passwd/foo''\<rparr>"
  have "\<not> fst (bsd_IsInstalled ?r stat_fault_world)"
    by (simp add: bsd_IsInstalled_def os_Stat_def bsd_servicePath_def foo_rec_def)
  moreover have "bsd_resolvePath ?r stat_fault_world = (?r, None)"
    by (simp add: bsd_resolvePath_def)
  moreover have "os_Stat (execStartPath ?r) stat_fault_world =
      (None, Some (OsError ''not a directory''))"
    by (simp add: os_Stat_def)
  moreover have "\<not> os_IsNotExist (Some (OsError ''not a directory''))"
    by (simp add: os_IsNotExist_def)
  ultimately show "bsd_Install ?r [] stat_fault_world = Panicked"
    using bsd_Install_stat_error [of stat_fault_world ?r ?r] by simp
next
  let ?r = "foo_plist\<lparr>dexecStartPath := ''/etc/passwd/foo''\<rparr>"
  have "\<not> fst (darwin_IsInstalled ?r stat_fault_world)"
    by (simp add: darwin_IsInstalled_def os_Stat_def darwin_servicePath_def foo_plist_def)
  moreover have "darwin_resolvePath ?r stat_fault_world = (?r, None)"
    by (simp add: darwin_resolvePath_def)
  moreover have "os_Stat (dexecStartPath ?r) stat_fault_world =
      (None, Some (OsError ''not a directory''))"
    by (simp add: os_Stat_def)
  moreover have "\<not> os_IsNotExist (Some (OsError ''not a directory''))"
    by (simp add: os_IsNotExist_def)
  ultimately show "darwin_Install ?r [] stat_fault_world = Panicked"
    using darwin_Install_stat_error [of stat_fault_world ?r ?r] by simp
qed

text \<open>
  C3 fails on the code. With the descriptor already installed, \<^verbatim>\<open>Install\<close> on either
  variant returns the failure-suffixed message with a nil error, not an
  AlreadyInstalledError: the error returned is the one \<^verbatim>\<open>IsInstalled\<close> gave, which is nil
  whenever its verdict is true. The record and the world, the descriptor with them, are
  unchanged, as the claim says.
\<close>

theorem Install_already_installed_nil_error:
  "fs (svc_world [] ([], None)) ''/usr/local/etc/rc.d/foo'' = Some (File ''old'' 493) \<and>
   bsd_Install foo_rec [''--a''] (svc_world [] ([], None)) =
     Returned ((''Install Foo daemon:failed'', None), foo_rec, svc_world [] ([], None)) \<and>
   fs (svc_world [] ([], None)) ''/Library/LaunchDaemons/foo.plist'' = Some (File ''old'' 420) \<and>
   darwin_Install foo_plist [''--a''] (svc_world [] ([], None)) =
     Returned ((''Install Foo daemon:failed'', None), foo_plist, svc_world [] ([], None))"
proof -
  let ?w = "svc_world [] ([], None)"
  have b: "bsd_Install foo_rec [''--a''] ?w =
     Returned ((''Install Foo daemon:failed'', None), foo_rec, ?w)"
    using bsd_Install_installed [of ?w foo_rec "[''--a'']"]
    by (simp add: svc_bsd_installed failed_def)
  have d: "darwin_Install foo_plist [''--a''] ?w =
     Returned ((''Install Foo daemon:failed'', None), foo_plist, ?w)"
    using darwin_Install_installed [of ?w foo_plist "[''--a'']"]
    by (simp add: svc_darwin_installed failed_def)
  have f: "fs ?w ''/usr/local/etc/rc.d/foo'' = Some (File ''old'' 493)"
    "fs ?w ''/Library/LaunchDaemons/foo.plist'' = Some (File ''old'' 420)"
    by (simp_all add: installed_fs_def bsd_servicePath_def darwin_servicePath_def rc_conf_def)
  show ?thesis
    using b d f by simp
qed

lemma not_failed_success: "\<not> suffix failed (x @ success)"
  by (auto simp: failed_def success_def suffix_append suffix_Cons)

lemma failed_suffix: "suffix failed (x @ failed)"
  by (simp add: suffix_def)

text \<open>
  C1 fails on the code, at \<^verbatim>\<open>Install\<close> on an installed descriptor: the message carries the
  failure suffix and the error is nil, on either variant. The lemmas that follow show
  that this is the only place: \<^verbatim>\<open>Remove\<close>, \<^verbatim>\<open>Start\<close> and \<^verbatim>\<open>Stop\<close> keep the pairing whenever
  they return, and so does \<^verbatim>\<open>Install\<close> on every other path.
\<close>

theorem Install_breaks_result_contract:
  "map_option (result_contract ''Install '' (description foo_rec))
     (result (bsd_Install foo_rec [] (svc_world [] ([], None)))) = Some False \<and>
   map_option (result_contract ''Install '' (ddescription foo_plist))
     (result (darwin_Install foo_plist [] (svc_world [] ([], None)))) = Some False"
proof -
  let ?w = "svc_world [] ([], None)"
  have b: "bsd_Install foo_rec [] ?w =
     Returned ((''Install '' @ description foo_rec @ '':'' @ failed, None), foo_rec, ?w)"
    using bsd_Install_installed [of ?w foo_rec "[]"] by (simp add: svc_bsd_installed)
  have d: "darwin_Install foo_plist [] ?w =
     Returned ((''Install '' @ ddescription foo_plist @ '':'' @ failed, None), foo_plist, ?w)"
    using darwin_Install_installed [of ?w foo_plist "[]"] by (simp add: svc_darwin_installed)
  have s: "suffix failed (''Install '' @ ''Foo daemon'' @ '':'' @ failed)"
    using failed_suffix [of "''Install '' @ ''Foo daemon'' @ '':''"] by simp
  show ?thesis
    unfolding b d using s by (simp add: result_contract_def)
qed

subsection \<open>Descriptor rendering\<close>

lemma sublist_in: "t = a @ x @ b \<Longrightarrow> sublist x t"
  by (auto simp: sublist_def)

lemma bsd_render_name:
  \<open>sublist (''name="'' @ n @ ''"'') (bsdConfig n d p a)\<close>
  unfolding bsdConfig_def
  by (rule sublist_in [where a = \<open>''#!/bin/sh\<newline>#\<newline># PROVIDE: '' @ n @
     ''\<newline># REQUIRE: networking syslog\<newline># KEYWORD:\<newline>\<newline># Add the following lines to /etc/rc.conf to enable the '' @ n @
     '':\<newline>#\<newline># '' @ n @
     ''_enable="YES"\<newline>#\<newline>\<newline>\<newline>. /etc/rc.subr\<newline>\<newline>''\<close>
     and b = \<open>''\<newline>rcvar="'' @ n @
     ''_enable"\<newline>command="'' @ p @
     ''"\<newline>pidfile="/var/run/$name.pid"\<newline>\<newline>start_cmd="/usr/sbin/daemon -p $pidfile -f $command '' @ a @
     ''"\<newline>load_rc_config $name\<newline>run_rc_command "$1"\<newline>''\<close>]) simp

lemma bsd_render_path:
  \<open>sublist (''command="'' @ p @ ''"'') (bsdConfig n d p a)\<close>
  unfolding bsdConfig_def
  by (rule sublist_in [where a = \<open>''#!/bin/sh\<newline>#\<newline># PROVIDE: '' @ n @
     ''\<newline># REQUIRE: networking syslog\<newline># KEYWORD:\<newline>\<newline># Add the following lines to /etc/rc.conf to enable the '' @ n @
     '':\<newline>#\<newline># '' @ n @
     ''_enable="YES"\<newline>#\<newline>\<newline>\<newline>. /etc/rc.subr\<newline>\<newline>name="'' @ n @
     ''"\<newline>rcvar="'' @ n @ ''_enable"\<newline>''\<close>
     and b = \<open>''\<newline>pidfile="/var/run/$name.pid"\<newline>\<newline>start_cmd="/usr/sbin/daemon -p $pidfile -f $command '' @ a @
     ''"\<newline>load_rc_config $name\<newline>run_rc_command "$1"\<newline>''\<close>]) simp

lemma bsd_render_args:
  \<open>sublist (''start_cmd="/usr/sbin/daemon -p $pidfile -f $command '' @ a @ ''"'')
     (bsdConfig n d p a)\<close>
  unfolding bsdConfig_def
  by (rule sublist_in [where a = \<open>''#!/bin/sh\<newline>#\<newline># PROVIDE: '' @ n @
     ''\<newline># REQUIRE: networking syslog\<newline># KEYWORD:\<newline>\<newline># Add the following lines to /etc/rc.conf to enable the '' @ n @
     '':\<newline>#\<newline># '' @ n @
     ''_enable="YES"\<newline>#\<newline>\<newline>\<newline>. /etc/rc.subr\<newline>\<newline>name="'' @ n @
     ''"\<newline>rcvar="'' @ n @ ''_enable"\<newline>command="'' @ p @
     ''"\<newline>pidfile="/var/run/$name.pid"\<newline>\<newline>''\<close>
     and b = \<open>''\<newline>load_rc_config $name\<newline>run_rc_command "$1"\<newline>''\<close>]) simp

lemma bsd_render_description: "bsdConfig n d p a = bsdConfig n d' p a"
  by (simp add: bsdConfig_def)

lemma darwin_render_name:
  \<open>sublist (''<key>Label</key>\<newline>'' @ tab @ ''<string>'' @ n @ ''</string>'')
     (propertyList n p args)\<close>
  unfolding propertyList_def
  by (rule sublist_in [where a = \<open>''<?xml version="1.0" encoding="UTF-8"?>\<newline>'' @
     ''<!DOCTYPE plist PUBLIC "-//Apple//DTD PLIST 1.0//EN" "http://www.apple.com/DTDs/PropertyList-1.0.dtd">\<newline>'' @
     ''<plist version="1.0">\<newline><dict>\<newline>'' @
     tab @ ''<key>KeepAlive</key>\<newline>'' @
     tab @ ''<true/>\<newline>'' @ tab\<close>
     and b = \<open>''\<newline>'' @
     tab @ ''<key>ProgramArguments</key>\<newline>'' @
     tab @ ''<array>\<newline>'' @
     tab @ ''    <string>'' @ p @ ''</string>\<newline>'' @
     tab @ tab @ concat (map plist_arg args) @ ''\<newline>'' @
     tab @ ''</array>\<newline>'' @
     tab @ ''<key>RunAtLoad</key>\<newline>'' @
     tab @ ''<true/>\<newline>'' @
     ''    <key>WorkingDirectory</key>\<newline>'' @
     ''    <string>/usr/local/var</string>\<newline>'' @
     ''    <key>StandardErrorPath</key>\<newline>'' @
     ''    <string>/usr/local/var/log/'' @ n @ ''.err</string>\<newline>'' @
     ''    <key>StandardOutPath</key>\<newline>'' @
     ''    <string>/usr/local/var/log/'' @ n @ ''.log</string>\<newline>'' @
     ''</dict>\<newline></plist>\<newline>''\<close>]) simp

lemma darwin_render_args:
  \<open>sublist (''<array>\<newline>'' @ tab @ ''    <string>'' @ p @ ''</string>\<newline>'' @ tab @ tab @
       concat (map (\<lambda>a. ''<string>'' @ a @ ''</string>\<newline>'' @ tab @ tab) args) @
       ''\<newline>'' @ tab @ ''</array>'')
     (propertyList n p args)\<close>
proof -
  have m: "map (\<lambda>a. ''<string>'' @ a @ ''</string>\<newline>'' @ tab @ tab) args = map plist_arg args"
    by (simp add: plist_arg_def)
  show ?thesis
    unfolding propertyList_def m
    by (rule sublist_in [where a = \<open>''<?xml version="1.0" encoding="UTF-8"?>\<newline>'' @
     ''<!DOCTYPE plist PUBLIC "-//Apple//DTD PLIST 1.0//EN" "http://www.apple.com/DTDs/PropertyList-1.0.dtd">\<newline>'' @
     ''<plist version="1.0">\<newline><dict>\<newline>'' @
     tab @ ''<key>KeepAlive</key>\<newline>'' @
     tab @ ''<true/>\<newline>'' @
     tab @ ''<key>Label</key>\<newline>'' @
     tab @ ''<string>'' @ n @ ''</string>\<newline>'' @
     tab @ ''<key>ProgramArguments</key>\<newline>'' @ tab\<close>
     and b = \<open>''\<newline>'' @
     tab @ ''<key>RunAtLoad</key>\<newline>'' @
     tab @ ''<true/>\<newline>'' @
     ''    <key>WorkingDirectory</key>\<newline>'' @
     ''    <string>/usr/local/var</string>\<newline>'' @
     ''    <key>StandardErrorPath</key>\<newline>'' @
     ''    <string>/usr/local/var/log/'' @ n @ ''.err</string>\<newline>'' @
     ''    <key>StandardOutPath</key>\<newline>'' @
     ''    <string>/usr/local/var/log/'' @ n @ ''.log</string>\<newline>'' @
     ''</dict>\<newline></plist>\<newline>''\<close>]) simp
qed

text \<open>
  C9, as amended. The rendering embeds the name, the execution path and the trailing
  arguments as they are: on rc.d the arguments joined by single spaces, in order, at the
  end of the start command line; on launchd one \<^verbatim>\<open><string>\<close> entry per argument, in
  order, right after the entry of the path in the \<^verbatim>\<open>ProgramArguments\<close> array. The
  description is not part of either rendering: changing it changes nothing.
\<close>

theorem render_embeds_name_path_args:
  \<open>sublist (''name="'' @ name bsd @ ''"'') (bsd_text bsd args) \<and>
   sublist (''command="'' @ execStartPath bsd @ ''"'') (bsd_text bsd args) \<and>
   sublist (''start_cmd="/usr/sbin/daemon -p $pidfile -f $command '' @
              strings_Join args '' '' @ ''"'') (bsd_text bsd args) \<and>
   strings_Join (a1 # a2 # rest) '' '' = a1 @ '' '' @ strings_Join (a2 # rest) '' '' \<and>
   bsd_text (bsd\<lparr>description := d\<rparr>) args = bsd_text bsd args \<and>
   sublist (''<key>Label</key>\<newline>'' @ tab @ ''<string>'' @ dname darwin @ ''</string>'')
     (darwin_text darwin args) \<and>
   sublist (''<array>\<newline>'' @ tab @ ''    <string>'' @ dexecStartPath darwin @ ''</string>\<newline>'' @
            tab @ tab @
            concat (map (\<lambda>a. ''<string>'' @ a @ ''</string>\<newline>'' @ tab @ tab) args) @
            ''\<newline>'' @ tab @ ''</array>'')
     (darwin_text darwin args) \<and>
   darwin_text (darwin\<lparr>ddescription := d\<rparr>) args = darwin_text darwin args\<close>
  unfolding bsd_text_def darwin_text_def
  by (intro conjI bsd_render_name bsd_render_path bsd_render_args darwin_render_name
      darwin_render_args) (simp_all add: bsdConfig_def)

lemma no_Z_bsd: "CHR ''Z'' \<notin> set (bsd_text x_rec [''--a''])"
  by (simp add: bsd_text_def bsdConfig_def x_rec_def)

lemma no_Z_darwin: "CHR ''Z'' \<notin> set (darwin_text x_plist [''--a''])"
  by (simp add: darwin_text_def propertyList_def x_plist_def plist_arg_def tab_def)

text \<open>
  C9 as stated says that the description is embedded too. For the record
  \<^verbatim>\<open>{name "x", description "Zeta daemon", path "/usr/bin/x"}\<close> and the argument
  \<^verbatim>\<open>--a\<close>, neither rendering contains the description.
\<close>

theorem render_omits_description_counterexample:
  "\<not> sublist (description x_rec) (bsd_text x_rec [''--a'']) \<and>
   \<not> sublist (ddescription x_plist) (darwin_text x_plist [''--a''])"
proof
  show "\<not> sublist (description x_rec) (bsd_text x_rec [''--a''])"
  proof
    assume "sublist (description x_rec) (bsd_text x_rec [''--a''])"
    from set_mono_sublist [OF this] have "CHR ''Z'' \<in> set (bsd_text x_rec [''--a''])"
      by (auto simp: x_rec_def)
    with no_Z_bsd show False by simp
  qed
  show "\<not> sublist (ddescription x_plist) (darwin_text x_plist [''--a''])"
  proof
    assume "sublist (ddescription x_plist) (darwin_text x_plist [''--a''])"
    from set_mono_sublist [OF this] have "CHR ''Z'' \<in> set (darwin_text x_plist [''--a''])"
      by (auto simp: x_plist_def)
    with no_Z_darwin show False by simp
  qed
qed

theorem render_embeds_name_path_args_witness:
  \<open>sublist ''name="x"'' (bsd_text x_rec [''--a'', ''--b'']) \<and>
   sublist ''command="/usr/bin/x"'' (bsd_text x_rec [''--a'', ''--b'']) \<and>
   sublist ''start_cmd="/usr/sbin/daemon -p $pidfile -f $command --a --b"''
     (bsd_text x_rec [''--a'', ''--b'']) \<and>
   sublist (''<key>Label</key>\<newline>'' @ tab @ ''<string>x</string>'')
     (darwin_text x_plist [''--a'', ''--b'']) \<and>
   sublist (''<array>\<newline>'' @ tab @ ''    <string>/usr/bin/x</string>\<newline>'' @ tab @ tab @
            ''<string>--a</string>\<newline>'' @ tab @ tab @
            ''<string>--b</string>\<newline>'' @ tab @ tab @ ''\<newline>'' @ tab @ ''</array>'')
     (darwin_text x_plist [''--a'', ''--b''])\<close>
  using render_embeds_name_path_args [of x_rec "[''--a'', ''--b'']" "''--a''" "''--b''" "[]" "[]" x_plist]
  by (simp add: x_rec_def x_plist_def)

subsection \<open>The result contract\<close>

lemma contract_failed: "e \<noteq> None \<Longrightarrow> result_contract verb d (verb @ d @ '':'' @ failed, e)"
  using failed_suffix [of "verb @ d @ '':''"] by (simp add: result_contract_def)

lemma contract_success: "result_contract verb d (verb @ d @ '':'' @ success, None)"
  using not_failed_success [of "verb @ d @ '':''"] by (simp add: result_contract_def)

lemma not_installed_error_bsd: "\<not> fst (bsd_IsInstalled bsd w) \<Longrightarrow> snd (bsd_IsInstalled bsd w) \<noteq> None"
  using IsInstalled_bsd [of bsd w] by blast

lemma not_installed_error_darwin:
  "\<not> fst (darwin_IsInstalled darwin w) \<Longrightarrow> snd (darwin_IsInstalled darwin w) \<noteq> None"
  using IsInstalled_darwin [of darwin w] by blast

lemma not_installed_pair_bsd: "bsd_IsInstalled bsd w = (False, e) \<Longrightarrow> e \<noteq> None"
  by (auto simp: bsd_IsInstalled_def split: prod.splits option.splits)

lemma not_installed_pair_darwin: "darwin_IsInstalled darwin w = (False, e) \<Longrightarrow> e \<noteq> None"
  by (auto simp: darwin_IsInstalled_def split: prod.splits option.splits)

lemma contract_failedI:
  assumes "res = Returned ((verb @ d @ '':'' @ failed, e), w1)" and "res = Returned (r, w')"
    and "e \<noteq> None"
  shows "result_contract verb d r"
proof -
  from assms(2) [unfolded assms(1)] have "r = (verb @ d @ '':'' @ failed, e)" by simp
  with contract_failed [OF assms(3), of verb d] show ?thesis by simp
qed

lemma contract_successI:
  assumes "res = Returned ((verb @ d @ '':'' @ success, None), w1)" and "res = Returned (r, w')"
  shows "result_contract verb d r"
proof -
  from assms(2) [unfolded assms(1)] have "r = (verb @ d @ '':'' @ success, None)" by simp
  with contract_success [of verb d] show ?thesis by simp
qed

lemma contract_pair_failed:
  assumes "res = ((verb @ d @ '':'' @ failed, e), w1)" and "e \<noteq> None"
  shows "result_contract verb d (fst res)"
  unfolding assms(1) using contract_failed [OF assms(2), of verb d] by simp

lemma contract_pair_success:
  assumes "res = ((verb @ d @ '':'' @ success, None), w1)"
  shows "result_contract verb d (fst res)"
  unfolding assms using contract_success [of verb d] by simp

lemma bsd_Remove_contract:
  "result_contract ''Removing '' (description bsd) (fst (bsd_Remove bsd w))"
proof (cases "privileged w")
  case False
  then have "bsd_Remove bsd w =
      ((''Removing '' @ description bsd @ '':'' @ failed, Some ErrRootPrivileges), w)"
    by (simp add: bsd_Remove_def checkPrivileges_def)
  from contract_pair_failed [OF this] show ?thesis by simp
next
  case True
  note pr = True
  obtain c e where i: "bsd_IsInstalled bsd w = (c, e)" by (cases "bsd_IsInstalled bsd w")
  show ?thesis
  proof (cases c)
    case False
    with i have "bsd_IsInstalled bsd w = (False, e)" by simp
    then have e: "e \<noteq> None" by (rule not_installed_pair_bsd)
    from False i pr have "bsd_Remove bsd w =
        ((''Removing '' @ description bsd @ '':'' @ failed, e), w)"
      by (simp add: bsd_Remove_def checkPrivileges_def)
    from contract_pair_failed [OF this e] show ?thesis .
  next
    case True
    obtain re w1 where r: "os_Remove (bsd_servicePath bsd) w = (re, w1)"
      by (cases "os_Remove (bsd_servicePath bsd) w")
    show ?thesis
    proof (cases re)
      case None
      with True i pr r have "bsd_Remove bsd w =
          ((''Removing '' @ description bsd @ '':'' @ success, None), w1)"
        by (simp add: bsd_Remove_def checkPrivileges_def)
      from contract_pair_success [OF this] show ?thesis .
    next
      case (Some e')
      with True i pr r have "bsd_Remove bsd w =
          ((''Removing '' @ description bsd @ '':'' @ failed, Some e'), w1)"
        by (simp add: bsd_Remove_def checkPrivileges_def)
      from contract_pair_failed [OF this] show ?thesis by simp
    qed
  qed
qed

lemma darwin_Remove_contract:
  "result_contract ''Removing '' (ddescription darwin) (fst (darwin_Remove darwin w))"
proof (cases "privileged w")
  case False
  then have "darwin_Remove darwin w =
      ((''Removing '' @ ddescription darwin @ '':'' @ failed, Some ErrRootPrivileges), w)"
    by (simp add: darwin_Remove_def checkPrivileges_def)
  from contract_pair_failed [OF this] show ?thesis by simp
next
  case True
  note pr = True
  obtain c e where i: "darwin_IsInstalled darwin w = (c, e)" by (cases "darwin_IsInstalled darwin w")
  show ?thesis
  proof (cases c)
    case False
    with i have "darwin_IsInstalled darwin w = (False, e)" by simp
    then have e: "e \<noteq> None" by (rule not_installed_pair_darwin)
    from False i pr have "darwin_Remove darwin w =
        ((''Removing '' @ ddescription darwin @ '':'' @ failed, e), w)"
      by (simp add: darwin_Remove_def checkPrivileges_def)
    from contract_pair_failed [OF this e] show ?thesis .
  next
    case True
    obtain re w1 where r: "os_Remove (darwin_servicePath darwin) w = (re, w1)"
      by (cases "os_Remove (darwin_servicePath darwin) w")
    show ?thesis
    proof (cases re)
      case None
      with True i pr r have "darwin_Remove darwin w =
          ((''Removing '' @ ddescription darwin @ '':'' @ success, None), w1)"
        by (simp add: darwin_Remove_def checkPrivileges_def)
      from contract_pair_success [OF this] show ?thesis .
    next
      case (Some e')
      with True i pr r have "darwin_Remove darwin w =
          ((''Removing '' @ ddescription darwin @ '':'' @ failed, Some e'), w1)"
        by (simp add: darwin_Remove_def checkPrivileges_def)
      from contract_pair_failed [OF this] show ?thesis by simp
    qed
  qed
qed

lemma darwin_Start_contract:
  "result_contract ''Starting '' (ddescription darwin) (fst (darwin_Start darwin w))"
proof (cases "privileged w")
  case False
  then have "darwin_Start darwin w =
      ((''Starting '' @ ddescription darwin @ '':'' @ failed, Some ErrRootPrivileges), w)"
    by (simp add: darwin_Start_def checkPrivileges_def)
  from contract_pair_failed [OF this] show ?thesis by simp
next
  case True
  note pr = True
  obtain c e where i: "darwin_IsInstalled darwin w = (c, e)"
    by (cases "darwin_IsInstalled darwin w")
  show ?thesis
  proof (cases c)
    case False
    with i have "darwin_IsInstalled darwin w = (False, e)" by simp
    then have e: "e \<noteq> None" by (rule not_installed_pair_darwin)
    from False i pr have "darwin_Start darwin w =
        ((''Starting '' @ ddescription darwin @ '':'' @ failed, e), w)"
      by (simp add: darwin_Start_def checkPrivileges_def)
    from contract_pair_failed [OF this e] show ?thesis .
  next
    case True
    note ins = True
    obtain m b w1 where p: "darwin_checkRunning darwin w = ((m, b), w1)"
      by (cases "darwin_checkRunning darwin w") auto
    show ?thesis
    proof (cases "b = True")
      case True
      with ins i pr p have "darwin_Start darwin w =
          ((''Starting '' @ ddescription darwin @ '':'' @ failed, Some ErrAlreadyRunning), w1)"
        by (simp add: darwin_Start_def checkPrivileges_def)
      from contract_pair_failed [OF this] show ?thesis by simp
    next
      case False
      then have b: "b = False" by simp
      obtain re w2 where r:
        "exec_Run [''launchctl'', ''load'', darwin_servicePath darwin] w1 = (re, w2)"
        by (cases "exec_Run [''launchctl'', ''load'', darwin_servicePath darwin] w1")
      show ?thesis
      proof (cases re)
        case None
        with b ins i pr p r have "darwin_Start darwin w =
            ((''Starting '' @ ddescription darwin @ '':'' @ success, None), w2)"
          by (simp add: darwin_Start_def checkPrivileges_def)
        from contract_pair_success [OF this] show ?thesis .
      next
        case (Some e')
        with b ins i pr p r have "darwin_Start darwin w =
            ((''Starting '' @ ddescription darwin @ '':'' @ failed, Some e'), w2)"
          by (simp add: darwin_Start_def checkPrivileges_def)
        from contract_pair_failed [OF this] show ?thesis by simp
      qed
    qed
  qed
qed

lemma darwin_Stop_contract:
  "result_contract ''Stopping '' (ddescription darwin) (fst (darwin_Stop darwin w))"
proof (cases "privileged w")
  case False
  then have "darwin_Stop darwin w =
      ((''Stopping '' @ ddescription darwin @ '':'' @ failed, Some ErrRootPrivileges), w)"
    by (simp add: darwin_Stop_def checkPrivileges_def)
  from contract_pair_failed [OF this] show ?thesis by simp
next
  case True
  note pr = True
  obtain c e where i: "darwin_IsInstalled darwin w = (c, e)"
    by (cases "darwin_IsInstalled darwin w")
  show ?thesis
  proof (cases c)
    case False
    with i have "darwin_IsInstalled darwin w = (False, e)" by simp
    then have e: "e \<noteq> None" by (rule not_installed_pair_darwin)
    from False i pr have "darwin_Stop darwin w =
        ((''Stopping '' @ ddescription darwin @ '':'' @ failed, e), w)"
      by (simp add: darwin_Stop_def checkPrivileges_def)
    from contract_pair_failed [OF this e] show ?thesis .
  next
    case True
    note ins = True
    obtain m b w1 where p: "darwin_checkRunning darwin w = ((m, b), w1)"
      by (cases "darwin_checkRunning darwin w") auto
    show ?thesis
    proof (cases "b = False")
      case True
      with ins i pr p have "darwin_Stop darwin w =
          ((''Stopping '' @ ddescription darwin @ '':'' @ failed, Some ErrAlreadyStopped), w1)"
        by (simp add: darwin_Stop_def checkPrivileges_def)
      from contract_pair_failed [OF this] show ?thesis by simp
    next
      case False
      then have b: "b = True" by simp
      obtain re w2 where r:
        "exec_Run [''launchctl'', ''unload'', darwin_servicePath darwin] w1 = (re, w2)"
        by (cases "exec_Run [''launchctl'', ''unload'', darwin_servicePath darwin] w1")
      show ?thesis
      proof (cases re)
        case None
        with b ins i pr p r have "darwin_Stop darwin w =
            ((''Stopping '' @ ddescription darwin @ '':'' @ success, None), w2)"
          by (simp add: darwin_Stop_def checkPrivileges_def)
        from contract_pair_success [OF this] show ?thesis .
      next
        case (Some e')
        with b ins i pr p r have "darwin_Stop darwin w =
            ((''Stopping '' @ ddescription darwin @ '':'' @ failed, Some e'), w2)"
          by (simp add: darwin_Stop_def checkPrivileges_def)
        from contract_pair_failed [OF this] show ?thesis by simp
      qed
    qed
  qed
qed

lemma bsd_Start_contract:
  assumes "bsd_Start bsd w = Returned (r, w')"
  shows "result_contract ''Starting '' (description bsd) r"
proof (cases "privileged w")
  case False
  show ?thesis
    by (rule contract_failedI [OF bsd_Start_unprivileged [OF False] assms]) simp
next
  case True
  note pr = True
  show ?thesis
  proof (cases "fst (bsd_IsInstalled bsd w)")
    case False
    show ?thesis
      by (rule contract_failedI [OF bsd_Start_not_installed [OF pr False] assms
            not_installed_error_bsd [OF False]])
  next
    case True
    note ins = True
    show ?thesis
    proof (cases "bsd_checkRunning bsd w")
      case Panicked
      with bsd_Start_panic [OF pr ins] assms show ?thesis by simp
    next
      case (Returned x)
      obtain m b w1 where x: "x = ((m, b), w1)" by (cases x) auto
      show ?thesis
      proof (cases "b = True")
        case True
        with Returned x have c: "bsd_checkRunning bsd w = Returned ((m, True), w1)" by simp
        show ?thesis
          by (rule contract_failedI [OF bsd_Start_running [OF pr ins c] assms]) simp
      next
        case False
        with Returned x have c: "bsd_checkRunning bsd w = Returned ((m, False), w1)" by simp
        from bsd_checkRunning_Returned [OF c]
        have w1: "w1 = w\<lparr>log := log w @ bsd_probe_trace bsd w\<rparr>"
          and np: "bsd_isEnabled bsd w \<noteq> Panicked" by simp_all
        have g: "bsd_getCmd bsd ''start'' w1 =
            Returned (bsd_verb bsd ''start'' w,
                      w\<lparr>log := (log w @ bsd_probe_trace bsd w) @ [Open rc_conf]\<rparr>)"
          unfolding w1 by (rule getCmd_after_probe [OF np])
        note eq = bsd_Start_not_running [OF pr ins c g]
        show ?thesis
        proof (cases "snd (cmd_result (w\<lparr>log := (log w @ bsd_probe_trace bsd w) @ [Open rc_conf]\<rparr>)
                            [''service'', name bsd, bsd_verb bsd ''start'' w])")
          case None
          have t: "(if (None :: error) = None then success else failed) = success" by simp
          show ?thesis
            by (rule contract_successI [OF eq [unfolded None t] assms])
        next
          case (Some e')
          have f: "(if Some e' = None then success else failed) = failed" by simp
          show ?thesis
            by (rule contract_failedI [OF eq [unfolded Some f] assms]) simp
        qed
      qed
    qed
  qed
qed

lemma bsd_Stop_contract:
  assumes "bsd_Stop bsd w = Returned (r, w')"
  shows "result_contract ''Stopping '' (description bsd) r"
proof (cases "privileged w")
  case False
  show ?thesis
    by (rule contract_failedI [OF bsd_Stop_unprivileged [OF False] assms]) simp
next
  case True
  note pr = True
  show ?thesis
  proof (cases "fst (bsd_IsInstalled bsd w)")
    case False
    show ?thesis
      by (rule contract_failedI [OF bsd_Stop_not_installed [OF pr False] assms
            not_installed_error_bsd [OF False]])
  next
    case True
    note ins = True
    show ?thesis
    proof (cases "bsd_checkRunning bsd w")
      case Panicked
      with bsd_Stop_panic [OF pr ins] assms show ?thesis by simp
    next
      case (Returned x)
      obtain m b w1 where x: "x = ((m, b), w1)" by (cases x) auto
      show ?thesis
      proof (cases "b = False")
        case True
        with Returned x have c: "bsd_checkRunning bsd w = Returned ((m, False), w1)" by simp
        show ?thesis
          by (rule contract_failedI [OF bsd_Stop_stopped [OF pr ins c] assms]) simp
      next
        case False
        with Returned x have c: "bsd_checkRunning bsd w = Returned ((m, True), w1)" by simp
        from bsd_checkRunning_Returned [OF c]
        have w1: "w1 = w\<lparr>log := log w @ bsd_probe_trace bsd w\<rparr>"
          and np: "bsd_isEnabled bsd w \<noteq> Panicked" by simp_all
        have g: "bsd_getCmd bsd ''stop'' w1 =
            Returned (bsd_verb bsd ''stop'' w,
                      w\<lparr>log := (log w @ bsd_probe_trace bsd w) @ [Open rc_conf]\<rparr>)"
          unfolding w1 by (rule getCmd_after_probe [OF np])
        note eq = bsd_Stop_running [OF pr ins c g]
        show ?thesis
        proof (cases "snd (cmd_result (w\<lparr>log := (log w @ bsd_probe_trace bsd w) @ [Open rc_conf]\<rparr>)
                            [''service'', name bsd, bsd_verb bsd ''stop'' w])")
          case None
          have t: "(if (None :: error) = None then success else failed) = success" by simp
          show ?thesis
            by (rule contract_successI [OF eq [unfolded None t] assms])
        next
          case (Some e')
          have f: "(if Some e' = None then success else failed) = failed" by simp
          show ?thesis
            by (rule contract_failedI [OF eq [unfolded Some f] assms]) simp
        qed
      qed
    qed
  qed
qed

lemma bsd_Install_write_contract:
  assumes "bsd_Install bsd args w = Returned (r, bsd1, w')" and cp: "bsd_checks_pass bsd w b1"
  shows "result_contract ''Install '' (description bsd) r"
proof -
  let ?p = "bsd_servicePath bsd"
  obtain ce w1 where c: "os_Create ?p w = (ce, w1)" by (cases "os_Create ?p w")
  show ?thesis
  proof (cases ce)
    case (Some e)
    show ?thesis
      by (rule contract_failedI [OF bsd_Install_create_fails [OF cp c [unfolded Some]] assms(1)])
         simp
  next
    case None
    note cn = c [unfolded None]
    show ?thesis
    proof (cases "template_Parse w1")
      case (Some e)
      show ?thesis
        by (rule contract_failedI [OF bsd_Install_parse_fails [OF cp cn Some] assms(1)]) simp
    next
      case None
      note pn = None
      obtain we w2 where f: "file_Write ?p (bsd_text b1 args) w1 = (we, w2)"
        by (cases "file_Write ?p (bsd_text b1 args) w1")
      show ?thesis
      proof (cases we)
        case (Some e)
        show ?thesis
          by (rule contract_failedI [OF bsd_Install_write_fails [OF cp cn pn f [unfolded Some]]
                assms(1)]) simp
      next
        case None
        note fn = f [unfolded None]
        obtain he w3 where h: "os_Chmod ?p 493 w2 = (he, w3)" by (cases "os_Chmod ?p 493 w2")
        show ?thesis
        proof (cases he)
          case (Some e)
          show ?thesis
            by (rule contract_failedI [OF bsd_Install_chmod_fails [OF cp cn pn fn h [unfolded Some]]
                  assms(1)]) simp
        next
          case None
          show ?thesis
            by (rule contract_successI [OF bsd_Install_succeeds [OF cp cn pn fn h [unfolded None]]
                  assms(1)])
        qed
      qed
    qed
  qed
qed

lemma bsd_Install_contract:
  assumes "bsd_Install bsd args w = Returned (r, bsd1, w')"
    and "\<not> (privileged w \<and> fst (bsd_IsInstalled bsd w))"
  shows "result_contract ''Install '' (description bsd) r"
proof (cases "privileged w")
  case False
  show ?thesis
    by (rule contract_failedI [OF bsd_Install_unprivileged [OF False] assms(1)]) simp
next
  case True
  note pr = True
  with assms(2) have ni: "\<not> fst (bsd_IsInstalled bsd w)" by simp
  obtain b1 re where rp: "bsd_resolvePath bsd w = (b1, re)" by (cases "bsd_resolvePath bsd w")
  show ?thesis
  proof (cases re)
    case (Some e)
    show ?thesis
      by (rule contract_failedI [OF bsd_Install_unresolved [OF pr ni rp [unfolded Some]] assms(1)])
         simp
  next
    case None
    note rn = rp [unfolded None]
    obtain i e where st: "os_Stat (execStartPath b1) w = (i, e)"
      by (cases "os_Stat (execStartPath b1) w")
    show ?thesis
    proof (cases "os_IsNotExist e")
      case True
      then have "os_IsNotExist (snd (os_Stat (execStartPath b1) w))" by (simp add: st)
      from contract_failedI [OF bsd_Install_no_path [OF pr ni rn this] assms(1)]
      show ?thesis by simp
    next
      case False
      note ne = False
      show ?thesis
      proof (cases i)
        case None
        with bsd_Install_stat_error [OF pr ni rn _ ne, of args] st assms(1) show ?thesis by simp
      next
        case (Some info)
        note si = st [unfolded Some]
        show ?thesis
        proof (cases "isDir info")
          case True
          from contract_failedI [OF bsd_Install_dir [OF pr ni rn si ne True] assms(1)]
          show ?thesis by simp
        next
          case False
          from stat_not_dir [OF si False] pr ni rn have cp: "bsd_checks_pass bsd w b1"
            by (simp add: bsd_checks_pass_def)
          from assms(1) cp show ?thesis by (rule bsd_Install_write_contract)
        qed
      qed
    qed
  qed
qed

lemma darwin_Install_write_contract:
  assumes "darwin_Install darwin args w = Returned (r, darwin1, w')" and cp: "darwin_checks_pass darwin w b1"
  shows "result_contract ''Install '' (ddescription darwin) r"
proof -
  let ?p = "darwin_servicePath darwin"
  obtain ce w1 where c: "os_Create ?p w = (ce, w1)" by (cases "os_Create ?p w")
  show ?thesis
  proof (cases ce)
    case (Some e)
    show ?thesis
      by (rule contract_failedI [OF darwin_Install_create_fails [OF cp c [unfolded Some]] assms(1)])
         simp
  next
    case None
    note cn = c [unfolded None]
    show ?thesis
    proof (cases "template_Parse w1")
      case (Some e)
      show ?thesis
        by (rule contract_failedI [OF darwin_Install_parse_fails [OF cp cn Some] assms(1)]) simp
    next
      case None
      note pn = None
      obtain we w2 where f: "file_Write ?p (darwin_text b1 args) w1 = (we, w2)"
        by (cases "file_Write ?p (darwin_text b1 args) w1")
      show ?thesis
      proof (cases we)
        case (Some e)
        show ?thesis
          by (rule contract_failedI [OF darwin_Install_write_fails [OF cp cn pn f [unfolded Some]]
                assms(1)]) simp
      next
        case None
        show ?thesis
          by (rule contract_successI [OF darwin_Install_succeeds [OF cp cn pn f [unfolded None]]
                assms(1)])
      qed
    qed
  qed
qed

lemma darwin_Install_contract:
  assumes "darwin_Install darwin args w = Returned (r, darwin1, w')"
    and "\<not> (privileged w \<and> fst (darwin_IsInstalled darwin w))"
  shows "result_contract ''Install '' (ddescription darwin) r"
proof (cases "privileged w")
  case False
  show ?thesis
    by (rule contract_failedI [OF darwin_Install_unprivileged [OF False] assms(1)]) simp
next
  case True
  note pr = True
  with assms(2) have ni: "\<not> fst (darwin_IsInstalled darwin w)" by simp
  obtain b1 re where rp: "darwin_resolvePath darwin w = (b1, re)" by (cases "darwin_resolvePath darwin w")
  show ?thesis
  proof (cases re)
    case (Some e)
    show ?thesis
      by (rule contract_failedI [OF darwin_Install_unresolved [OF pr ni rp [unfolded Some]] assms(1)])
         simp
  next
    case None
    note rn = rp [unfolded None]
    obtain i e where st: "os_Stat (dexecStartPath b1) w = (i, e)"
      by (cases "os_Stat (dexecStartPath b1) w")
    show ?thesis
    proof (cases "os_IsNotExist e")
      case True
      then have "os_IsNotExist (snd (os_Stat (dexecStartPath b1) w))" by (simp add: st)
      from contract_failedI [OF darwin_Install_no_path [OF pr ni rn this] assms(1)]
      show ?thesis by simp
    next
      case False
      note ne = False
      show ?thesis
      proof (cases i)
        case None
        with darwin_Install_stat_error [OF pr ni rn _ ne, of args] st assms(1) show ?thesis by simp
      next
        case (Some info)
        note si = st [unfolded Some]
        show ?thesis
        proof (cases "isDir info")
          case True
          from contract_failedI [OF darwin_Install_dir [OF pr ni rn si ne True] assms(1)]
          show ?thesis by simp
        next
          case False
          from stat_not_dir [OF si False] pr ni rn have cp: "darwin_checks_pass darwin w b1"
            by (simp add: darwin_checks_pass_def)
          from assms(1) cp show ?thesis by (rule darwin_Install_write_contract)
        qed
      qed
    qed
  qed
qed

end
